theory Spec2Isabelle
  imports Complex_Main "HOL-Library.Word"
begin

section \<open>JavaScript strings\<close>

text \<open>
  A JavaScript string is a sequence of UTF-16 code units; \<open>content.length\<close> counts code
  units, and \<open>split\<close> and \<open>trim\<close> work on code units as well (every white space and
  line terminator code point lies in the basic multilingual plane). String literals of
  the source are written as their code units.
\<close>

type_synonym utf16 = "16 word"
type_synonym jsstring = "utf16 list"

text \<open>
  \<open>content.split("\n")\<close>: the pieces between the occurrences of the code unit U+000A.
  The empty string gives one empty piece. The case \<open>[]\<close> of the recursive result
  does not occur; it is written out so that the function is total.
\<close>

definition LF :: utf16 where
  "LF = 0x000A"

fun split_LF :: "jsstring \<Rightarrow> jsstring list" where
  "split_LF [] = [[]]"
| "split_LF (c # cs) =
     (if c = LF then [] # split_LF cs
      else (case split_LF cs of [] \<Rightarrow> [[c]] | line # rest \<Rightarrow> (c # line) # rest))"

text \<open>
  The code units that \<open>String.prototype.trim\<close> strips: ECMAScript \<open>WhiteSpace\<close>
  (TAB, VT, FF, SP, NBSP, ZWNBSP and the space separators of Unicode) and
  \<open>LineTerminator\<close> (LF, CR, LS, PS).
\<close>

definition isWhiteSpace :: "utf16 \<Rightarrow> bool" where
  "isWhiteSpace c \<longleftrightarrow>
     c = 0x0009 \<or> c = 0x000A \<or> c = 0x000B \<or> c = 0x000C \<or> c = 0x000D \<or> c = 0x0020 \<or>
     c = 0x00A0 \<or> c = 0x1680 \<or> (0x2000 \<le> c \<and> c \<le> 0x200A) \<or> c = 0x2028 \<or>
     c = 0x2029 \<or> c = 0x202F \<or> c = 0x205F \<or> c = 0x3000 \<or> c = 0xFEFF"

definition trim :: "jsstring \<Rightarrow> jsstring" where
  "trim s = rev (dropWhile isWhiteSpace (rev (dropWhile isWhiteSpace s)))"

section \<open>The suggestion selector (SuggestionsPanel.tsx)\<close>

datatype Tone = Structure | Clarity | Evidence | Flow

datatype Priority = High | Mid | Low

text \<open>
  The interface \<open>Suggestion\<close>. The fields \<open>tone\<close> and \<open>priority\<close> are optional in the
  source. The field \<open>id\<close> is named \<open>id_str\<close> here.
\<close>

record Suggestion =
  id_str :: jsstring
  title :: jsstring
  description :: jsstring
  tone :: "Tone option"
  priority :: "Priority option"

text \<open>
  The eleven object literals of the \<open>useMemo\<close> body, in source order: two for each of
  the first three branches, four for the last branch, and the one of the fallback.
\<close>

definition outline_first :: Suggestion where
  "outline_first =
     \<lparr> id_str = [0x0031],
       title = [0xBAA9, 0xCC28, 0xC640, 0x0020, 0xAD6C, 0xC870, 0xB97C, 0x0020, 0xBA3C, 0xC800,
                0x0020, 0xC7A1, 0xC544, 0xBCF4, 0xC138, 0xC694],
       description = [0xC11C, 0xB860, 0x2013, 0xBCF8, 0xB860, 0x2013, 0xACB0, 0xB860, 0xC758, 0x0020,
                      0xBF08, 0xB300, 0xB97C, 0x0020, 0xBA3C, 0xC800, 0x0020, 0xB9CC, 0xB4E4, 0xBA74,
                      0x0020, 0xAE00, 0xC774, 0x0020, 0xD6E8, 0xC52C, 0x0020, 0xC548, 0xC815, 0xC801,
                      0xC73C, 0xB85C, 0x0020, 0xC804, 0xAC1C, 0xB3FC, 0xC694, 0x002E],
       tone = Some Structure,
       priority = Some High \<rparr>"

definition thesis_one_sentence :: Suggestion where
  "thesis_one_sentence =
     \<lparr> id_str = [0x0032],
       title = [0xD575, 0xC2EC, 0x0020, 0xC8FC, 0xC81C, 0xB97C, 0x0020, 0xD55C, 0x0020, 0xBB38,
                0xC7A5, 0xC73C, 0xB85C, 0x0020, 0xC815, 0xB9AC, 0xD574, 0xBCF4, 0xC138, 0xC694],
       description = [0x201C, 0xC774, 0x0020, 0xAE00, 0xC740, 0x0020, 0xACB0, 0xAD6D, 0x0020, 0xBB34,
                      0xC5C7, 0xC744, 0x0020, 0xB9D0, 0xD558, 0xB294, 0xAC00, 0x003F, 0x201D, 0xB97C,
                      0x0020, 0xD55C, 0x0020, 0xBB38, 0xC7A5, 0xC73C, 0xB85C, 0x0020, 0xBABB, 0x0020,
                      0xBC15, 0xC544, 0xBCF4, 0xC138, 0xC694, 0x002E],
       tone = Some Clarity,
       priority = Some Mid \<rparr>"

definition summarize_paragraphs :: Suggestion where
  "summarize_paragraphs =
     \<lparr> id_str = [0x0031],
       title = [0xAC01, 0x0020, 0xBB38, 0xB2E8, 0xC758, 0x0020, 0xD575, 0xC2EC, 0xC744, 0x0020,
                0x0031, 0xBB38, 0xC7A5, 0xC73C, 0xB85C, 0x0020, 0xC694, 0xC57D, 0xD574, 0xBCF4,
                0xC138, 0xC694],
       description = [0xBB38, 0xB2E8, 0xC758, 0x0020, 0xC8FC, 0xC7A5, 0x002F, 0xADFC, 0xAC70, 0x002F,
                      0xACB0, 0xB860, 0xC774, 0x0020, 0xBD84, 0xB9AC, 0xB418, 0xBA74, 0x0020, 0xB17C,
                      0xB9AC, 0x0020, 0xD750, 0xB984, 0xC774, 0x0020, 0xD6E8, 0xC52C, 0x0020, 0xB610,
                      0xB837, 0xD574, 0xC838, 0xC694, 0x002E],
       tone = Some Structure,
       priority = Some High \<rparr>"

definition add_example :: Suggestion where
  "add_example =
     \<lparr> id_str = [0x0032],
       title = [0xAD6C, 0xCCB4, 0xC801, 0xC778, 0x0020, 0xC608, 0xC2DC, 0xB098, 0x0020, 0xC0AC,
                0xB840, 0xB97C, 0x0020, 0xCD94, 0xAC00, 0xD574, 0xBCFC, 0xAE4C, 0xC694, 0x003F],
       description = [0xCD94, 0xC0C1, 0xC801, 0xC778, 0x0020, 0xC124, 0xBA85, 0xC5D0, 0x0020, 0x0031,
                      0xAC1C, 0xC758, 0x0020, 0xC0AC, 0xB840, 0xB9CC, 0x0020, 0xBD99, 0xC5EC, 0xB3C4,
                      0x0020, 0xC124, 0xB4DD, 0xB825, 0xC774, 0x0020, 0xD06C, 0xAC8C, 0x0020, 0xC62C,
                      0xB77C, 0xAC00, 0xC694, 0x002E],
       tone = Some Evidence,
       priority = Some Mid \<rparr>"

definition split_paragraphs :: Suggestion where
  "split_paragraphs =
     \<lparr> id_str = [0x0031],
       title = [0xBB38, 0xB2E8, 0xC744, 0x0020, 0xB098, 0xB204, 0xC5B4, 0x0020, 0xAD6C, 0xC870,
                0xB97C, 0x0020, 0xBA85, 0xD655, 0xD788, 0x0020, 0xD574, 0xBCF4, 0xC138, 0xC694],
       description = [0xD55C, 0x0020, 0xBB38, 0xB2E8, 0xC5D0, 0xB294, 0x0020, 0x2018, 0xD55C, 0x0020,
                      0xC8FC, 0xC7A5, 0x2019, 0xB9CC, 0x0020, 0xB2F4, 0xB294, 0x0020, 0xAC8C, 0x0020,
                      0xC77D, 0xAE30, 0x0020, 0xC26C, 0xC6B4, 0x0020, 0xAE00, 0xC758, 0x0020, 0xAE30,
                      0xBCF8, 0xC774, 0xC5D0, 0xC694, 0x002E],
       tone = Some Structure,
       priority = Some High \<rparr>"

definition paragraph_roles :: Suggestion where
  "paragraph_roles =
     \<lparr> id_str = [0x0032],
       title = [0xAC01, 0x0020, 0xBB38, 0xB2E8, 0xC758, 0x0020, 0xC5ED, 0xD560, 0xC744, 0x0020,
                0xC815, 0xC758, 0xD574, 0xBCF4, 0xC138, 0xC694],
       description = [0xC11C, 0xB860, 0x0028, 0xBB38, 0xC81C, 0x0029, 0x2013, 0xBCF8, 0xB860, 0x0028,
                      0xADFC, 0xAC70, 0x0029, 0x2013, 0xACB0, 0xB860, 0x0028, 0xC694, 0xC57D, 0x002F,
                      0xC81C, 0xC548, 0x0029, 0xC774, 0x0020, 0xC788, 0xB294, 0xC9C0, 0x0020, 0xC810,
                      0xAC80, 0xD574, 0xBCF4, 0xC138, 0xC694, 0x002E],
       tone = Some Flow,
       priority = Some Mid \<rparr>"

definition check_transitions :: Suggestion where
  "check_transitions =
     \<lparr> id_str = [0x0031],
       title = [0xBB38, 0xB2E8, 0x0020, 0xAC04, 0x0020, 0xC5F0, 0xACB0, 0xC774, 0x0020, 0xC790,
                0xC5F0, 0xC2A4, 0xB7EC, 0xC6B4, 0xC9C0, 0x0020, 0xC810, 0xAC80, 0xD574, 0xBCF4,
                0xC138, 0xC694],
       description = [0x2018, 0xB530, 0xB77C, 0xC11C, 0x002F, 0xADF8, 0xB7EC, 0xB098, 0x002F, 0xB610,
                      0xD55C, 0x2019, 0x0020, 0xAC19, 0xC740, 0x0020, 0xC5F0, 0xACB0, 0xC5B4, 0xAC00,
                      0x0020, 0xD750, 0xB984, 0xC744, 0x0020, 0xB9E4, 0xB044, 0xB7FD, 0xAC8C, 0x0020,
                      0xB9CC, 0xB4E4, 0xC5B4, 0xC918, 0xC694, 0x002E],
       tone = Some Flow,
       priority = Some Mid \<rparr>"

definition strengthen_evidence :: Suggestion where
  "strengthen_evidence =
     \<lparr> id_str = [0x0032],
       title = [0xADFC, 0xAC70, 0xB97C, 0x0020, 0xC5B4, 0xB5A4, 0x0020, 0xD615, 0xD0DC, 0xB85C,
                0x0020, 0xBCF4, 0xAC15, 0xD560, 0xAE4C, 0xC694, 0x003F],
       description = [0xC0AC, 0xB840, 0x00B7, 0xD1B5, 0xACC4, 0x00B7, 0xC778, 0xC6A9, 0x0020, 0xC911,
                      0x0020, 0xBB34, 0xC5C7, 0xC774, 0x0020, 0xC774, 0x0020, 0xBB38, 0xB9E5, 0xC5D0,
                      0x0020, 0xAC00, 0xC7A5, 0x0020, 0xC798, 0x0020, 0xB9DE, 0xB294, 0xC9C0, 0x0020,
                      0xACE8, 0xB77C, 0xBCF4, 0xC138, 0xC694, 0x002E],
       tone = Some Evidence,
       priority = Some High \<rparr>"

definition address_counterargument :: Suggestion where
  "address_counterargument =
     \<lparr> id_str = [0x0033],
       title = [0xBC18, 0xB300, 0x0020, 0xC758, 0xACAC, 0xC744, 0x0020, 0xD55C, 0x0020, 0xBC88,
                0xB9CC, 0x0020, 0xC120, 0xC81C, 0xC801, 0xC73C, 0xB85C, 0x0020, 0xB2E4, 0xB904,
                0xBCF4, 0xC138, 0xC694],
       description = [0xBC18, 0xBC15, 0xC744, 0x0020, 0xBBF8, 0xB9AC, 0x0020, 0xB123, 0xC73C, 0xBA74,
                      0x0020, 0xB17C, 0xC99D, 0x0020, 0xC2E0, 0xB8B0, 0xB3C4, 0xAC00, 0x0020, 0xD06C,
                      0xAC8C, 0x0020, 0xC62C, 0xB77C, 0xAC00, 0xC694, 0x002E],
       tone = Some Clarity,
       priority = Some Mid \<rparr>"

definition strengthen_conclusion :: Suggestion where
  "strengthen_conclusion =
     \<lparr> id_str = [0x0034],
       title = [0xACB0, 0xB860, 0xC744, 0x0020, 0x2018, 0xB2E4, 0xC74C, 0x0020, 0xD589, 0xB3D9,
                0x2019, 0xAE4C, 0xC9C0, 0x0020, 0xD3EC, 0xD568, 0xD574, 0x0020, 0xAC15, 0xD654,
                0xD574, 0xBCF4, 0xC138, 0xC694],
       description = [0xC694, 0xC57D, 0x0020, 0x002B, 0x0020, 0xB3C5, 0xC790, 0xC5D0, 0xAC8C, 0x0020,
                      0xB0A8, 0xAE38, 0x0020, 0xBB38, 0xC7A5, 0x0020, 0x0031, 0xAC1C, 0x0020, 0x002B,
                      0x0020, 0xB2E4, 0xC74C, 0x0020, 0xB2E8, 0xACC4, 0x0028, 0xC81C, 0xC548, 0x002F,
                      0xB2E4, 0xC9D0, 0x0029, 0xB85C, 0x0020, 0xB9C8, 0xBB34, 0xB9AC, 0xD574, 0xC694,
                      0x002E],
       tone = Some Structure,
       priority = Some High \<rparr>"

definition default_1 :: Suggestion where
  "default_1 =
     \<lparr> id_str = [0x0064, 0x0065, 0x0066, 0x0061, 0x0075, 0x006C, 0x0074, 0x002D, 0x0031],
       title = [0xB3C5, 0xC790, 0x0020, 0xAD00, 0xC810, 0xC5D0, 0xC11C, 0x0020, 0xC77D, 0xAE30,
                0x0020, 0xC26C, 0xC6B4, 0xAC00, 0xC694, 0x003F],
       description = [0xC804, 0xBB38, 0x0020, 0xC6A9, 0xC5B4, 0xB97C, 0x0020, 0xD480, 0xC5B4, 0xC4F0,
                      0xAC70, 0xB098, 0x002C, 0x0020, 0xAE34, 0x0020, 0xBB38, 0xC7A5, 0xC744, 0x0020,
                      0xB458, 0xB85C, 0x0020, 0xB098, 0xB20C, 0x0020, 0xC218, 0x0020, 0xC788, 0xB294,
                      0xC9C0, 0x0020, 0xD655, 0xC778, 0xD574, 0xBCF4, 0xC138, 0xC694, 0x002E],
       tone = Some Clarity,
       priority = Some Low \<rparr>"

text \<open>
  The array \<open>s\<close> after the \<open>if\<close> / \<open>else if\<close> chain: it starts empty and exactly one
  branch pushes its literals. The props are JavaScript numbers; the panel receives a
  string length and an array length, so they are modelled as integers.
\<close>

definition pushed :: "int \<Rightarrow> int \<Rightarrow> Suggestion list" where
  "pushed contentLength paragraphCount =
     (if contentLength < 100 then [] @ [outline_first, thesis_one_sentence]
      else if contentLength < 500 then [] @ [summarize_paragraphs, add_example]
      else if paragraphCount < 3 then [] @ [split_paragraphs, paragraph_roles]
      else [] @ [check_transitions, strengthen_evidence, address_counterargument,
                 strengthen_conclusion])"

text \<open>\<open>if (s.length < 2) s.push({id: "default-1", ...})\<close>\<close>

definition fallback :: "Suggestion list \<Rightarrow> Suggestion list" where
  "fallback s = (if length s < 2 then s @ [default_1] else s)"

text \<open>\<open>s.slice(0, 4)\<close>\<close>

definition slice_0_4 :: "'a list \<Rightarrow> 'a list" where
  "slice_0_4 s = take 4 s"

text \<open>The memoised value \<open>suggestions\<close>, which the specification calls \<open>select\<close>.\<close>

definition suggestions :: "int \<Rightarrow> int \<Rightarrow> Suggestion list" where
  "suggestions contentLength paragraphCount =
     slice_0_4 (fallback (pushed contentLength paragraphCount))"

section \<open>The progress percentage (SuggestionsPanel.tsx)\<close>

text \<open>
  JavaScript numbers are IEEE 754 binary64 values. A finite value is modelled by the
  rational it denotes, and every arithmetic operation rounds its exact result to the
  nearest binary64 value, ties to the even significand.
\<close>

text \<open>The number of binary digits of a positive integer.\<close>

function bitlength :: "int \<Rightarrow> int" where
  "bitlength n = (if n \<le> 0 then 0 else 1 + bitlength (n div 2))"
  by pat_completeness auto
termination
  by (relation "measure nat") auto

declare bitlength.simps [simp del]

text \<open>The exponent \<open>e\<close> with \<open>2 ^ e \<le> q < 2 ^ (e + 1)\<close>, for positive \<open>q\<close>.\<close>

definition binade :: "rat \<Rightarrow> int" where
  "binade q =
     (let (a, b) = quotient_of q;
          e = bitlength a - bitlength b
      in if 2 powi e \<le> q then e else e - 1)"

definition round_half_even :: "rat \<Rightarrow> int" where
  "round_half_even m =
     (let f = \<lfloor>m\<rfloor>; d = m - of_int f
      in if d < 1 / 2 then f else if 1 / 2 < d then f + 1
         else if even f then f else f + 1)"

text \<open>
  Rounding to binary64: 53 significant bits, with the fixed spacing \<open>2 ^ - 1074\<close> below
  the smallest normal number. Overflow to infinity is not modelled; the values
  computed below stay between 0 and 100.
\<close>

definition binary64 :: "rat \<Rightarrow> rat" where
  "binary64 q =
     (if q = 0 then 0
      else let u = 2 powi (max (binade \<bar>q\<bar>) (- 1022) - 52)
           in sgn q * of_int (round_half_even (\<bar>q\<bar> / u)) * u)"

text \<open>
  \<open>Math.round\<close>: the closest integer, the one nearer to plus infinity when two are
  equally close.
\<close>

definition Math_round :: "rat \<Rightarrow> int" where
  "Math_round x = \<lfloor>x + 1 / 2\<rfloor>"

text \<open>
  \<open>Math.max(min, Math.min(max, n))\<close>; the parameters \<open>min\<close> and \<open>max\<close> of the source
  are \<open>mn\<close> and \<open>mx\<close> here.
\<close>

definition clamp :: "int \<Rightarrow> int \<Rightarrow> int \<Rightarrow> int" where
  "clamp n mn mx = max mn (min mx n)"

text \<open>\<open>Math.round((clamp(contentLength, 0, 1000) / 1000) * 100)\<close>\<close>

definition getProgress :: "int \<Rightarrow> int" where
  "getProgress contentLength =
     Math_round (binary64 (binary64 (of_int (clamp contentLength 0 1000) / 1000) * 100))"

section \<open>The page component and its save status (Home)\<close>

datatype SaveStatus = Saved | Editing

text \<open>
  The state of the component \<open>Home\<close> together with the part of the window it uses:
  the three \<open>useState\<close> cells that matter here, the ref \<open>saveTimerRef\<close>, the clock in
  milliseconds, the timers of this component that are set and have neither run nor
  been cleared (handle and the time from which the timer may run), and the handle the
  next \<open>setTimeout\<close> returns. The only callback this component ever passes to
  \<open>setTimeout\<close> is \<open>() => setSaveStatus("Saved")\<close>, so a timer carries no callback.
\<close>

record page =
  saveStatus :: SaveStatus
  contentLength :: nat
  paragraphCount :: nat
  saveTimerRef :: "nat option"
  now :: nat
  timers :: "(nat \<times> nat) list"
  nextHandle :: nat
  mounted :: bool

text \<open>\<open>window.setTimeout(callback, delay)\<close> returns the handle of the new timer.\<close>

definition setTimeout :: "nat \<Rightarrow> page \<Rightarrow> nat \<times> page" where
  "setTimeout delay p =
     (nextHandle p,
      p\<lparr>timers := timers p @ [(nextHandle p, now p + delay)],
        nextHandle := Suc (nextHandle p)\<rparr>)"

text \<open>\<open>window.clearTimeout(handle)\<close>: nothing happens when no such timer is set.\<close>

definition clearTimeout :: "nat \<Rightarrow> page \<Rightarrow> page" where
  "clearTimeout h p = p\<lparr>timers := filter (\<lambda>t. fst t \<noteq> h) (timers p)\<rparr>"

text \<open>
  \<open>if (saveTimerRef.current) window.clearTimeout(saveTimerRef.current)\<close>: the test
  is JavaScript truthiness, false for \<open>null\<close> and for the number 0.
\<close>

definition clearSaveTimer :: "page \<Rightarrow> page" where
  "clearSaveTimer p =
     (case saveTimerRef p of
        None \<Rightarrow> p
      | Some h \<Rightarrow> if h \<noteq> 0 then clearTimeout h p else p)"

definition handleContentChange :: "jsstring \<Rightarrow> page \<Rightarrow> page" where
  "handleContentChange content p =
     (let p1 = p\<lparr>contentLength := length content\<rparr>;
          paragraphs = filter (\<lambda>line. 0 < length (trim line)) (split_LF content);
          p2 = p1\<lparr>paragraphCount := length paragraphs\<rparr>
      in if 0 < length content then
           let p3 = p2\<lparr>saveStatus := Editing\<rparr>;
               p4 = clearSaveTimer p3;
               (h, p5) = setTimeout 900 p4
           in p5\<lparr>saveTimerRef := Some h\<rparr>
         else p2)"

text \<open>The cleanup function of the effect, which React runs when the component unmounts.\<close>

definition cleanup :: "page \<Rightarrow> page" where
  "cleanup p = clearSaveTimer p"

text \<open>
  The browser runs the callback of timer \<open>h\<close>. It does so only for a timer that is set
  and whose delay has passed; the timer is then no longer set.
\<close>

definition fire :: "nat \<Rightarrow> page \<Rightarrow> page" where
  "fire h p =
     (case map_of (timers p) h of
        None \<Rightarrow> p
      | Some due \<Rightarrow>
          if due \<le> now p then (clearTimeout h p)\<lparr>saveStatus := Saved\<rparr> else p)"

text \<open>
  What can happen to the page: the editor reports new plain text, time passes, the
  browser runs a timer, other code of the window sets a timer of its own and so takes
  a handle, React unmounts the component. \<open>DocEditor\<close> subscribes \<open>onContentChange\<close>
  to the editor in an effect whose cleanup unsubscribes it, so no content change
  reaches an unmounted page.
\<close>

datatype event = ContentChange jsstring | Elapse nat | Fire nat | OtherTimer | Unmount

fun step :: "event \<Rightarrow> page \<Rightarrow> page" where
  "step (ContentChange content) p = (if mounted p then handleContentChange content p else p)"
| "step (Elapse ms) p = p\<lparr>now := now p + ms\<rparr>"
| "step (Fire h) p = fire h p"
| "step OtherTimer p = p\<lparr>nextHandle := Suc (nextHandle p)\<rparr>"
| "step Unmount p = (if mounted p then (cleanup p)\<lparr>mounted := False\<rparr> else p)"

fun run :: "event list \<Rightarrow> page \<Rightarrow> page" where
  "run [] p = p"
| "run (e # es) p = run es (step e p)"

text \<open>
  The page when \<open>Home\<close> mounts, at time 0: the initial values of the state cells and
  of the ref, no timer set. \<open>h0\<close> is the handle the window hands out next; the HTML
  standard makes every handle an integer greater than zero.
\<close>

definition mount :: "nat \<Rightarrow> page" where
  "mount h0 =
     \<lparr> saveStatus = Saved, contentLength = 0, paragraphCount = 0, saveTimerRef = None,
       now = 0, timers = [], nextHandle = h0, mounted = True \<rparr>"

section \<open>The selection rule as the specification words it\<close>

text \<open>
  The four bucket rules of the specification, each with its condition written out in
  full and with the literals of the branch it names, and the search for the first
  rule whose condition holds.
\<close>

definition spec_rules :: "((int \<Rightarrow> int \<Rightarrow> bool) \<times> Suggestion list) list" where
  "spec_rules =
     [(\<lambda>len pc. len < 100, [outline_first, thesis_one_sentence]),
      (\<lambda>len pc. 100 \<le> len \<and> len < 500, [summarize_paragraphs, add_example]),
      (\<lambda>len pc. 500 \<le> len \<and> pc < 3, [split_paragraphs, paragraph_roles]),
      (\<lambda>len pc. 500 \<le> len \<and> 3 \<le> pc,
       [check_transitions, strengthen_evidence, address_counterargument,
        strengthen_conclusion])]"

fun first_match ::
  "((int \<Rightarrow> int \<Rightarrow> bool) \<times> Suggestion list) list \<Rightarrow> int \<Rightarrow> int \<Rightarrow> Suggestion list" where
  "first_match [] len pc = []"
| "first_match (r # rs) len pc = (if fst r len pc then snd r else first_match rs len pc)"

text \<open>The rules that apply to given metrics.\<close>

definition matching :: "int \<Rightarrow> int \<Rightarrow> ((int \<Rightarrow> int \<Rightarrow> bool) \<times> Suggestion list) list" where
  "matching len pc = filter (\<lambda>r. fst r len pc) spec_rules"

section \<open>Lines and blank lines as the specification words them\<close>

text \<open>
  The specification counts the lines that are not blank, where the lines are the
  maximal runs of text between newline characters: joined with one newline between
  neighbours they give the text back, and no line holds a newline. A line is not
  blank when it has a character that is not white space.
\<close>

fun join_LF :: "jsstring list \<Rightarrow> jsstring" where
  "join_LF [] = []"
| "join_LF [line] = line"
| "join_LF (line # rest) = line @ LF # join_LF rest"

definition is_lines :: "jsstring list \<Rightarrow> jsstring \<Rightarrow> bool" where
  "is_lines ls s \<longleftrightarrow> ls \<noteq> [] \<and> join_LF ls = s \<and> (\<forall>line \<in> set ls. LF \<notin> set line)"

definition non_blank :: "jsstring \<Rightarrow> bool" where
  "non_blank line \<longleftrightarrow> (\<exists>c \<in> set line. \<not> isWhiteSpace c)"

section \<open>Histories of the page\<close>

text \<open>
  A history is quiet when no content change in it carries text; \<open>elapsed\<close> is the
  time that passes in it.
\<close>

fun quiet :: "event list \<Rightarrow> bool" where
  "quiet [] \<longleftrightarrow> True"
| "quiet (ContentChange content # es) \<longleftrightarrow> content = [] \<and> quiet es"
| "quiet (e # es) \<longleftrightarrow> quiet es"

fun elapsed :: "event list \<Rightarrow> nat" where
  "elapsed [] = 0"
| "elapsed (Elapse ms # es) = ms + elapsed es"
| "elapsed (e # es) = elapsed es"

text \<open>
  What holds of the timers in every state the page reaches: handles are positive and
  below the next handle, and the only timer that can be set is the one the ref holds,
  on a mounted page.
\<close>

definition timer_inv :: "page \<Rightarrow> bool" where
  "timer_inv p \<longleftrightarrow>
     0 < nextHandle p \<and>
     (case timers p of
        [] \<Rightarrow> True
      | [t] \<Rightarrow> fst t \<noteq> 0 \<and> fst t < nextHandle p \<and> saveTimerRef p = Some (fst t) \<and> mounted p
      | _ \<Rightarrow> False)"

section \<open>Properties of the suggestion selector\<close>

lemmas literal_defs =
  outline_first_def thesis_one_sentence_def summarize_paragraphs_def add_example_def
  split_paragraphs_def paragraph_roles_def check_transitions_def strengthen_evidence_def
  address_counterargument_def strengthen_conclusion_def default_1_def

lemma length_pushed: "length (pushed len pc) = (if len < 500 \<or> pc < 3 then 2 else 4)"
  by (simp add: pushed_def)

lemma fallback_pushed: "fallback (pushed len pc) = pushed len pc"
  by (simp add: fallback_def length_pushed)

lemma suggestions_pushed: "suggestions len pc = pushed len pc"
  by (simp add: suggestions_def slice_0_4_def fallback_pushed length_pushed)

lemma set_pushed:
  "set (pushed len pc) \<subseteq>
     {outline_first, thesis_one_sentence, summarize_paragraphs, add_example, split_paragraphs,
      paragraph_roles, check_transitions, strengthen_evidence, address_counterargument,
      strengthen_conclusion}"
  by (simp add: pushed_def)

text \<open>
  Claim C1. For all metrics (in particular all non-negative ones), the list the code
  returns is the list of the first rule of the specification that applies, exactly one
  rule applies, and the list is the literal list of that rule in its order. At
  \<open>(600, 1)\<close> this is the third rule, two suggestions, the first of tone structure and
  priority high; at \<open>(600, 5)\<close> it is the fourth rule, four suggestions with tones flow,
  evidence, clarity, structure and priorities mid, high, mid, high.
\<close>

theorem select_first_match:
  "suggestions len pc = first_match spec_rules len pc
   \<and> length (matching len pc) = 1
   \<and> suggestions 600 1 = [split_paragraphs, paragraph_roles]
   \<and> map tone (suggestions 600 1) = [Some Structure, Some Flow]
   \<and> map priority (suggestions 600 1) = [Some High, Some Mid]
   \<and> suggestions 600 5 =
       [check_transitions, strengthen_evidence, address_counterargument, strengthen_conclusion]
   \<and> map tone (suggestions 600 5) = [Some Flow, Some Evidence, Some Clarity, Some Structure]
   \<and> map priority (suggestions 600 5) = [Some Mid, Some High, Some Mid, Some High]"
  by (simp add: suggestions_pushed pushed_def spec_rules_def matching_def literal_defs)

text \<open>
  Claim C3. For all metrics (in particular all non-negative ones), the returned list
  has at least 2 and at most 4 suggestions.
\<close>

theorem select_size: "2 \<le> length (suggestions len pc) \<and> length (suggestions len pc) \<le> 4"
  by (simp add: suggestions_pushed length_pushed)

text \<open>
  Claim C9. The fallback branch is never taken: the array has at least two entries
  after the chain of branches, so the fallback step leaves it as it is, and the
  returned list holds neither the fallback suggestion nor any suggestion with the id
  \<open>default-1\<close> or with priority low.
\<close>

theorem fallback_unreachable:
  "\<not> length (pushed len pc) < 2
   \<and> fallback (pushed len pc) = pushed len pc
   \<and> default_1 \<notin> set (suggestions len pc)
   \<and> (\<forall>s \<in> set (suggestions len pc).
         id_str s \<noteq> [0x0064, 0x0065, 0x0066, 0x0061, 0x0075, 0x006C, 0x0074, 0x002D, 0x0031]
         \<and> priority s \<noteq> Some Low)"
  using set_pushed [of len pc]
  by (auto simp add: suggestions_pushed fallback_pushed length_pushed literal_defs)

theorem fallback_unreachable_witness:
  "suggestions 0 0 \<noteq> []
   \<and> default_1 \<notin> set (suggestions 0 0)
   \<and> list_all
        (\<lambda>s. id_str s \<noteq> [0x0064, 0x0065, 0x0066, 0x0061, 0x0075, 0x006C, 0x0074, 0x002D, 0x0031]
             \<and> priority s \<noteq> Some Low)
        (suggestions 0 0)"
  using fallback_unreachable [of 0 0]
  by (simp add: list_all_iff suggestions_pushed pushed_def)

section \<open>Properties of the text metrics\<close>

lemma split_LF_not_Nil: "split_LF s \<noteq> []"
  by (induction s) (auto split: list.splits)

lemma join_split_LF: "join_LF (split_LF s) = s"
proof (induction s)
  case Nil
  show ?case by simp
next
  case (Cons c cs)
  obtain line rest where sp: "split_LF cs = line # rest"
    using split_LF_not_Nil [of cs] by (cases "split_LF cs") auto
  show ?case
  proof (cases "c = LF")
    case True
    with Cons sp show ?thesis by simp
  next
    case False
    with Cons sp show ?thesis by (cases rest) auto
  qed
qed

lemma split_LF_no_LF: "line \<in> set (split_LF s) \<Longrightarrow> LF \<notin> set line"
proof (induction s arbitrary: line)
  case Nil
  then show ?case by simp
next
  case (Cons c cs)
  then show ?case
    by (cases "split_LF cs") (auto split: if_splits)
qed

lemma split_join_LF:
  "ls \<noteq> [] \<Longrightarrow> \<forall>line \<in> set ls. LF \<notin> set line \<Longrightarrow> split_LF (join_LF ls) = ls"
proof (induction ls rule: join_LF.induct)
  case 1
  then show ?case by simp
next
  case (2 line)
  then show ?case by (induction line) auto
next
  case (3 line l rest)
  then have ih: "split_LF (join_LF (l # rest)) = l # rest" by simp
  from 3 have "LF \<notin> set line" by simp
  then show ?case using ih by (induction line) auto
qed

lemma is_lines_unique: "is_lines ls s \<longleftrightarrow> ls = split_LF s"
  using split_join_LF join_split_LF split_LF_no_LF split_LF_not_Nil
  unfolding is_lines_def by metis

lemma dropWhile_all_iff: "(\<forall>c \<in> set (dropWhile P s). P c) \<longleftrightarrow> dropWhile P s = []"
proof
  assume all: "\<forall>c \<in> set (dropWhile P s). P c"
  show "dropWhile P s = []"
  proof (rule ccontr)
    assume ne: "dropWhile P s \<noteq> []"
    then have "\<not> P (hd (dropWhile P s))" by (rule hd_dropWhile)
    moreover from ne have "hd (dropWhile P s) \<in> set (dropWhile P s)" by (rule hd_in_set)
    ultimately show False using all by blast
  qed
next
  assume e: "dropWhile P s = []"
  show "\<forall>c \<in> set (dropWhile P s). P c" unfolding e by simp
qed

lemma trim_Nil_iff: "trim s = [] \<longleftrightarrow> (\<forall>c \<in> set s. isWhiteSpace c)"
proof -
  have "trim s = [] \<longleftrightarrow> (\<forall>c \<in> set (dropWhile isWhiteSpace s). isWhiteSpace c)"
    by (simp add: trim_def dropWhile_eq_Nil_conv)
  also have "\<dots> \<longleftrightarrow> dropWhile isWhiteSpace s = []"
    by (rule dropWhile_all_iff)
  also have "\<dots> \<longleftrightarrow> (\<forall>c \<in> set s. isWhiteSpace c)"
    by (simp add: dropWhile_eq_Nil_conv)
  finally show ?thesis .
qed

lemma trim_non_blank: "trim line \<noteq> [] \<longleftrightarrow> non_blank line"
  by (simp add: trim_Nil_iff non_blank_def)

lemma paragraphCount_handleContentChange:
  "paragraphCount (handleContentChange content p) =
     length (filter (\<lambda>line. 0 < length (trim line)) (split_LF content))"
  by (simp add: handleContentChange_def Let_def setTimeout_def clearSaveTimer_def
      clearTimeout_def split: prod.splits option.splits)

lemma contentLength_handleContentChange:
  "contentLength (handleContentChange content p) = length content"
  by (simp add: handleContentChange_def Let_def setTimeout_def clearSaveTimer_def
      clearTimeout_def split: prod.splits option.splits)

text \<open>
  Claim C5. The lines of \<open>split\<close> are the lines of the text in the sense of the
  specification, they are the only such decomposition, and for every text the paragraph
  count the handler stores is the number of lines that hold a character that is not
  white space. The text \<open>a\n\nb\n  \nc\<close> gives the count 3.
\<close>

theorem paragraph_count_lines:
  "is_lines (split_LF content) content
   \<and> (\<forall>ls. is_lines ls content \<longrightarrow>
          paragraphCount (handleContentChange content p) = length (filter non_blank ls))
   \<and> paragraphCount
        (handleContentChange [0x0061, 0x000A, 0x000A, 0x0062, 0x000A, 0x0020, 0x0020, 0x000A, 0x0063] p)
       = 3"
proof -
  have a: "is_lines (split_LF content) content"
    by (simp add: is_lines_unique)
  have b: "paragraphCount (handleContentChange c p) = length (filter non_blank (split_LF c))" for c
    by (simp add: paragraphCount_handleContentChange trim_non_blank)
  have c: "length (filter non_blank
      (split_LF [0x0061, 0x000A, 0x000A, 0x0062, 0x000A, 0x0020, 0x0020, 0x000A, 0x0063])) = 3"
    by (simp add: non_blank_def isWhiteSpace_def LF_def)
  show ?thesis using a b c by (simp add: is_lines_unique)
qed

theorem paragraph_count_lines_witness:
  "is_lines [[0x0061], [], [0x0062], [0x0020, 0x0020], [0x0063]]
      [0x0061, 0x000A, 0x000A, 0x0062, 0x000A, 0x0020, 0x0020, 0x000A, 0x0063]
   \<and> length (filter non_blank [[0x0061], [], [0x0062], [0x0020, 0x0020], [0x0063]]) = 3
   \<and> paragraphCount
        (handleContentChange [0x0061, 0x000A, 0x000A, 0x0062, 0x000A, 0x0020, 0x0020, 0x000A, 0x0063]
           (mount 1))
       = length (filter non_blank [[0x0061], [], [0x0062], [0x0020, 0x0020], [0x0063]])"
proof -
  have l: "is_lines [[0x0061], [], [0x0062], [0x0020, 0x0020], [0x0063]]
      [0x0061, 0x000A, 0x000A, 0x0062, 0x000A, 0x0020, 0x0020, 0x000A, 0x0063]"
    by (simp add: is_lines_def LF_def)
  have n: "length (filter non_blank [[0x0061], [], [0x0062], [0x0020, 0x0020], [0x0063]]) = 3"
    by (simp add: non_blank_def isWhiteSpace_def)
  show ?thesis
    using l n
      paragraph_count_lines [of "[0x0061, 0x000A, 0x000A, 0x0062, 0x000A, 0x0020, 0x0020, 0x000A, 0x0063]" "mount 1"]
    by blast
qed

lemma count_split_LF_le:
  "(\<And>line. P line \<Longrightarrow> line \<noteq> []) \<Longrightarrow> length (filter P (split_LF s)) \<le> length s"
proof (induction s)
  case Nil
  then show ?case by auto
next
  case (Cons c cs)
  then have ih: "length (filter P (split_LF cs)) \<le> length cs" by simp
  from Cons.prems have "\<not> P []" by blast
  then show ?case using ih
    by (cases "split_LF cs") (auto split: if_splits)
qed

text \<open>
  Claim C10. After every content change the stored paragraph count is at most the
  stored content length. When the stored length is 0 the paragraph count is 0 and the
  panel shows the two suggestions of the first bucket.
\<close>

theorem paragraphs_le_length:
  "paragraphCount (handleContentChange content p) \<le> contentLength (handleContentChange content p)
   \<and> (contentLength (handleContentChange content p) = 0 \<longrightarrow>
        paragraphCount (handleContentChange content p) = 0
        \<and> suggestions (int (contentLength (handleContentChange content p)))
             (int (paragraphCount (handleContentChange content p)))
            = [outline_first, thesis_one_sentence])"
proof -
  have "length (filter (\<lambda>line. 0 < length (trim line)) (split_LF content)) \<le> length content"
    by (rule count_split_LF_le) (auto simp add: trim_def)
  then have le: "paragraphCount (handleContentChange content p)
      \<le> contentLength (handleContentChange content p)"
    by (simp add: paragraphCount_handleContentChange contentLength_handleContentChange)
  have "suggestions 0 0 = [outline_first, thesis_one_sentence]"
    by (simp add: suggestions_pushed pushed_def)
  with le show ?thesis by auto
qed

theorem paragraphs_le_length_witness:
  "contentLength (handleContentChange [] (mount 1)) = 0
   \<and> paragraphCount (handleContentChange [] (mount 1)) = 0
   \<and> suggestions (int (contentLength (handleContentChange [] (mount 1))))
        (int (paragraphCount (handleContentChange [] (mount 1))))
       = [outline_first, thesis_one_sentence]"
  using paragraphs_le_length [of "[]" "mount 1"]
  by (auto simp add: contentLength_handleContentChange)

section \<open>Properties of the progress percentage\<close>

lemma bitlength_nonpos: "n \<le> 0 \<Longrightarrow> bitlength n = 0"
  by (subst bitlength.simps) simp

lemma bitlength_rec: "0 < n \<Longrightarrow> bitlength n = 1 + bitlength (n div 2)"
  by (subst bitlength.simps) simp

lemma bitlength_nonneg: "0 \<le> bitlength n"
proof (induction n rule: bitlength.induct)
  case (1 n)
  show ?case
  proof (cases "n \<le> 0")
    case True
    then show ?thesis by (simp add: bitlength_nonpos)
  next
    case False
    with 1 have "0 \<le> bitlength (n div 2)" by simp
    with False show ?thesis by (simp add: bitlength_rec)
  qed
qed

lemma bitlength_pos: "0 < n \<Longrightarrow> 0 < bitlength n"
  using bitlength_nonneg [of "n div 2"] by (simp add: bitlength_rec)

lemma bitlength_bounds:
  "0 < n \<Longrightarrow> 2 ^ nat (bitlength n - 1) \<le> n \<and> n < 2 ^ nat (bitlength n)"
proof (induction n rule: bitlength.induct)
  case (1 n)
  show ?case
  proof (cases "n = 1")
    case True
    then show ?thesis by (simp add: bitlength_rec bitlength_nonpos)
  next
    case False
    with "1.prems" have m: "0 < n div 2" by simp
    define k where "k = bitlength (n div 2)"
    from m have kpos: "0 < k" unfolding k_def by (rule bitlength_pos)
    from "1.IH" m "1.prems" have ih: "2 ^ nat (k - 1) \<le> n div 2" "n div 2 < 2 ^ nat k"
      unfolding k_def by simp_all
    have bl: "bitlength n = 1 + k"
      using "1.prems" unfolding k_def by (simp add: bitlength_rec)
    have "nat k = Suc (nat (k - 1))" using kpos by simp
    then have p: "(2::int) ^ nat k = 2 * 2 ^ nat (k - 1)" by simp
    have "nat (1 + k) = Suc (nat k)" using kpos by simp
    then have p': "(2::int) ^ nat (1 + k) = 2 * 2 ^ nat k" by simp
    have "2 ^ nat k \<le> n" using ih(1) p by linarith
    moreover have "n < 2 ^ nat (1 + k)" using ih(2) p' by linarith
    ultimately show ?thesis using bl by simp
  qed
qed

lemma binade_bounds:
  assumes "0 < q"
  shows "2 powi binade q \<le> q \<and> q < 2 powi (binade q + 1)"
proof -
  obtain a b where ab: "quotient_of q = (a, b)" by (cases "quotient_of q")
  then have b: "0 < b" by (rule quotient_of_denom_pos)
  from ab have q: "q = of_int a / of_int b" by (rule quotient_of_div)
  with assms b have a: "0 < a" by (simp add: zero_less_divide_iff)
  define la lb where "la = bitlength a" and "lb = bitlength b"
  have la: "0 < la" and lb: "0 < lb" using a b by (simp_all add: la_def lb_def bitlength_pos)
  have pow: "(2::rat) ^ n \<le> of_int k" if "2 ^ n \<le> k" for n and k :: int
  proof -
    from that have "(of_int (2 ^ n) :: rat) \<le> of_int k" by (simp only: of_int_le_iff)
    then show ?thesis by simp
  qed
  have pow': "of_int k < (2::rat) ^ n" if "k < 2 ^ n" for n and k :: int
  proof -
    from that have "(of_int k :: rat) < of_int (2 ^ n)" by (simp only: of_int_less_iff)
    then show ?thesis by simp
  qed
  have a1: "(2::rat) powi (la - 1) \<le> of_int a"
    using pow [of "nat (la - 1)" a] bitlength_bounds [OF a] la
    by (simp add: la_def power_int_nonneg_exp)
  have a2: "of_int a < (2::rat) powi la"
    using pow' [of a "nat la"] bitlength_bounds [OF a] la
    by (simp add: la_def power_int_nonneg_exp)
  have b1: "(2::rat) powi (lb - 1) \<le> of_int b"
    using pow [of "nat (lb - 1)" b] bitlength_bounds [OF b] lb
    by (simp add: lb_def power_int_nonneg_exp)
  have b2: "of_int b < (2::rat) powi lb"
    using pow' [of b "nat lb"] bitlength_bounds [OF b] lb
    by (simp add: lb_def power_int_nonneg_exp)
  have bpos: "(0::rat) < of_int b" using b by simp
  have lo: "(2::rat) powi (la - lb - 1) < q"
  proof -
    have "(2::rat) powi (la - lb - 1) * of_int b < 2 powi (la - lb - 1) * 2 powi lb"
      using b2 by (simp add: mult_strict_left_mono)
    also have "\<dots> = 2 powi (la - 1)"
      by (simp flip: power_int_add)
    also have "\<dots> \<le> of_int a" by (rule a1)
    finally show ?thesis using bpos by (simp add: q pos_less_divide_eq)
  qed
  have hi: "q < (2::rat) powi (la - lb + 1)"
  proof -
    have "of_int a < (2::rat) powi la" by (rule a2)
    also have "\<dots> = 2 powi (la - lb + 1) * 2 powi (lb - 1)"
      by (simp flip: power_int_add)
    also have "\<dots> \<le> 2 powi (la - lb + 1) * of_int b"
      using b1 by (simp add: mult_left_mono)
    finally show ?thesis using bpos by (simp add: q pos_divide_less_eq)
  qed
  have bin: "binade q = (if 2 powi (la - lb) \<le> q then la - lb else la - lb - 1)"
    by (simp add: binade_def ab la_def lb_def)
  show ?thesis
  proof (cases "2 powi (la - lb) \<le> q")
    case True
    with bin hi show ?thesis by simp
  next
    case False
    with bin lo show ?thesis by simp
  qed
qed

lemma binade_mono:
  assumes "0 < q" and "q \<le> r"
  shows "binade q \<le> binade r"
proof -
  from assms have "0 < r" by simp
  have "(2::rat) powi binade q \<le> q" using binade_bounds [OF assms(1)] by simp
  also have "q \<le> r" by fact
  also have "r < 2 powi (binade r + 1)" using binade_bounds [OF \<open>0 < r\<close>] by simp
  finally have lt: "(2::rat) powi binade q < 2 powi (binade r + 1)" .
  show ?thesis
  proof (rule ccontr)
    assume "\<not> binade q \<le> binade r"
    then have "binade r + 1 \<le> binade q" by simp
    then have "(2::rat) powi (binade r + 1) \<le> 2 powi binade q"
      by (rule power_int_increasing) simp
    with lt show False by simp
  qed
qed


lemma round_half_even_floor:
  "\<lfloor>m\<rfloor> \<le> round_half_even m \<and> round_half_even m \<le> \<lfloor>m\<rfloor> + 1"
  by (simp add: round_half_even_def Let_def)

lemma round_half_even_ge:
  assumes "of_int k \<le> m"
  shows "k \<le> round_half_even m"
proof -
  from assms have "k \<le> \<lfloor>m\<rfloor>" by (simp add: le_floor_iff)
  with round_half_even_floor [of m] show ?thesis by simp
qed

lemma round_half_even_le:
  assumes "m \<le> of_int k"
  shows "round_half_even m \<le> k"
proof (cases "\<lfloor>m\<rfloor> < k")
  case True
  with round_half_even_floor [of m] show ?thesis by simp
next
  case False
  moreover from assms have "\<lfloor>m\<rfloor> \<le> k" by (simp add: floor_le_iff)
  ultimately have f: "\<lfloor>m\<rfloor> = k" by simp
  then have "of_int k \<le> m" by (metis of_int_floor_le)
  with assms have "m = of_int k" by simp
  then show ?thesis by (simp add: round_half_even_def)
qed

lemma round_half_even_mono:
  assumes "m \<le> n"
  shows "round_half_even m \<le> round_half_even n"
proof (cases "\<lfloor>m\<rfloor> < \<lfloor>n\<rfloor>")
  case True
  then have "round_half_even m \<le> \<lfloor>n\<rfloor>"
    using round_half_even_floor [of m] by simp
  then show ?thesis using round_half_even_floor [of n] by simp
next
  case False
  with assms have f: "\<lfloor>m\<rfloor> = \<lfloor>n\<rfloor>" by (simp add: floor_mono order_antisym)
  with assms have "m - of_int \<lfloor>m\<rfloor> \<le> n - of_int \<lfloor>n\<rfloor>" by simp
  then show ?thesis
    by (auto simp add: round_half_even_def Let_def f)
qed

lemma binary64_pos:
  "0 < q \<Longrightarrow>
     binary64 q =
       of_int (round_half_even (q / 2 powi (max (binade q) (- 1022) - 52)))
         * 2 powi (max (binade q) (- 1022) - 52)"
  by (simp add: binary64_def Let_def)

lemma binary64_nonneg: "0 \<le> q \<Longrightarrow> 0 \<le> binary64 q"
proof (cases "q = 0")
  case True
  then show ?thesis by (simp add: binary64_def)
next
  case False
  assume "0 \<le> q"
  with False have q: "0 < q" by simp
  have "0 \<le> round_half_even (q / 2 powi (max (binade q) (- 1022) - 52))"
    using q by (intro round_half_even_ge) simp
  then show ?thesis using q by (simp add: binary64_pos)
qed

lemma binary64_mono_pos:
  assumes "0 < q" and "q \<le> r"
  shows "binary64 q \<le> binary64 r"
proof -
  from assms have r: "0 < r" by simp
  define E where "E = max (binade q) (- 1022)"
  define F where "F = max (binade r) (- 1022)"
  have EF: "E \<le> F"
    using binade_mono [OF assms] unfolding E_def F_def by simp
  have bq: "binary64 q = of_int (round_half_even (q / 2 powi (E - 52))) * 2 powi (E - 52)"
    using assms(1) by (simp add: binary64_pos E_def)
  have br: "binary64 r = of_int (round_half_even (r / 2 powi (F - 52))) * 2 powi (F - 52)"
    using r by (simp add: binary64_pos F_def)
  show ?thesis
  proof (cases "E = F")
    case True
    have "q / 2 powi (F - 52) \<le> r / 2 powi (F - 52)"
      using assms(2) by (simp add: divide_right_mono)
    then have "round_half_even (q / 2 powi (F - 52)) \<le> round_half_even (r / 2 powi (F - 52))"
      by (rule round_half_even_mono)
    then show ?thesis
      unfolding bq br True by (simp add: mult_right_mono)
  next
    case False
    with EF have lt: "E + 1 \<le> F" by simp
    then have F: "F = binade r" unfolding F_def E_def by simp
    have "q < 2 powi (binade q + 1)" using binade_bounds [OF assms(1)] by simp
    also have "\<dots> \<le> 2 powi (E + 1)"
      by (rule power_int_increasing) (simp_all add: E_def)
    finally have "q / 2 powi (E - 52) \<le> 2 powi (E + 1) / 2 powi (E - 52)"
      by (simp add: divide_right_mono)
    also have "\<dots> = 2 powi 53"
      using power_int_diff [of "2::rat" "E + 1" "E - 52"] by simp
    finally have "q / 2 powi (E - 52) \<le> of_int (2 ^ 53)" by simp
    then have "round_half_even (q / 2 powi (E - 52)) \<le> 2 ^ 53"
      by (rule round_half_even_le)
    then have "(of_int (round_half_even (q / 2 powi (E - 52))) :: rat) \<le> of_int (2 ^ 53)"
      by (simp only: of_int_le_iff)
    then have "binary64 q \<le> 2 powi 53 * 2 powi (E - 52)"
      unfolding bq by (simp add: mult_right_mono)
    also have "\<dots> = 2 powi (E + 1)"
      using power_int_add [of "2::rat" 53 "E - 52"] by (simp add: add.commute)
    also have "\<dots> \<le> 2 powi F"
      using lt by (rule power_int_increasing) simp
    finally have upper: "binary64 q \<le> 2 powi F" .
    have "(2::rat) powi 52 = 2 powi F / 2 powi (F - 52)"
      using power_int_diff [of "2::rat" F "F - 52"] by simp
    also have "\<dots> \<le> r / 2 powi (F - 52)"
      using binade_bounds [OF r] by (simp add: divide_right_mono F)
    finally have "of_int (2 ^ 52) \<le> r / 2 powi (F - 52)" by simp
    then have "2 ^ 52 \<le> round_half_even (r / 2 powi (F - 52))"
      by (rule round_half_even_ge)
    then have "(of_int (2 ^ 52) :: rat) \<le> of_int (round_half_even (r / 2 powi (F - 52)))"
      by (simp only: of_int_le_iff)
    then have "2 powi 52 * 2 powi (F - 52) \<le> binary64 r"
      unfolding br by (simp add: mult_right_mono)
    moreover have "(2::rat) powi 52 * 2 powi (F - 52) = 2 powi F"
      using power_int_add [of "2::rat" 52 "F - 52"] by simp
    ultimately have "2 powi F \<le> binary64 r" by simp
    with upper show ?thesis by simp
  qed
qed

lemma binary64_mono: "0 \<le> q \<Longrightarrow> q \<le> r \<Longrightarrow> binary64 q \<le> binary64 r"
proof (cases "q = 0")
  case True
  assume "q \<le> r"
  with True have "0 \<le> r" by simp
  then have "0 \<le> binary64 r" by (rule binary64_nonneg)
  with True show ?thesis by (simp add: binary64_def)
next
  case False
  assume "0 \<le> q" and "q \<le> r"
  with False show ?thesis by (simp add: binary64_mono_pos)
qed


text \<open>
  The rounding is to a nearest value: the result is within half a unit in the last
  place of the exact value. The nearest binary64 value of one tenth is the familiar
  one.
\<close>

lemma round_half_even_nearest: "\<bar>of_int (round_half_even m) - m\<bar> \<le> 1 / 2"
proof -
  have "of_int \<lfloor>m\<rfloor> \<le> m" and "m < of_int \<lfloor>m\<rfloor> + 1" by linarith+
  then show ?thesis
    by (auto simp add: round_half_even_def Let_def)
qed

lemma binary64_nearest:
  assumes "0 < q"
  shows "\<bar>binary64 q - q\<bar> \<le> 2 powi (max (binade q) (- 1022) - 52) / 2"
proof -
  define u :: rat where "u = 2 powi (max (binade q) (- 1022) - 52)"
  have u: "0 < u" by (simp add: u_def)
  have "binary64 q - q = (of_int (round_half_even (q / u)) - q / u) * u"
    using assms u by (simp add: binary64_def Let_def u_def algebra_simps)
  then have "\<bar>binary64 q - q\<bar> = \<bar>of_int (round_half_even (q / u)) - q / u\<bar> * u"
    using u by (simp add: abs_mult)
  also have "\<dots> \<le> 1 / 2 * u"
    using round_half_even_nearest [of "q / u"] u by (intro mult_right_mono) simp_all
  finally show ?thesis by (simp add: u_def)
qed

lemma binary64_tenth: "binary64 (1 / 10) = 3602879701896397 / 36028797018963968"
  by code_simp

lemma binary64_1: "binary64 1 = 1"
  by code_simp

lemma binary64_100: "binary64 100 = 100"
  by code_simp

lemma Math_round_mono: "x \<le> y \<Longrightarrow> Math_round x \<le> Math_round y"
  by (simp add: Math_round_def floor_mono)

lemma Math_round_of_int: "Math_round (of_int k) = k"
  unfolding Math_round_def by (rule floor_unique) simp_all

lemma clamp_range: "0 \<le> clamp n 0 1000 \<and> clamp n 0 1000 \<le> 1000"
  by (simp add: clamp_def)

lemma clamp_mono: "m \<le> n \<Longrightarrow> clamp m 0 1000 \<le> clamp n 0 1000"
  by (simp add: clamp_def)

text \<open>The two values that \<open>getProgress\<close> rounds, for a clamped length.\<close>

lemma quotient_range:
  assumes "0 \<le> c" and "c \<le> 1000"
  shows "0 \<le> binary64 (of_int c / 1000) \<and> binary64 (of_int c / 1000) \<le> 1"
proof -
  have "(0::rat) \<le> of_int c / 1000" using assms by simp
  moreover have "(of_int c :: rat) / 1000 \<le> 1" using assms by simp
  ultimately show ?thesis
    using binary64_nonneg [of "of_int c / 1000"] binary64_mono [of "of_int c / 1000" 1]
    by (simp add: binary64_1)
qed

lemma percent_range:
  assumes "0 \<le> c" and "c \<le> 1000"
  shows "0 \<le> binary64 (binary64 (of_int c / 1000) * 100)
     \<and> binary64 (binary64 (of_int c / 1000) * 100) \<le> 100"
proof -
  from quotient_range [OF assms]
  have "0 \<le> binary64 (of_int c / 1000) * 100" and "binary64 (of_int c / 1000) * 100 \<le> 100"
    by simp_all
  then show ?thesis
    using binary64_nonneg [of "binary64 (of_int c / 1000) * 100"]
      binary64_mono [of "binary64 (of_int c / 1000) * 100" 100]
    by (simp add: binary64_100)
qed

lemma percent_mono:
  assumes "0 \<le> c" and "c \<le> d"
  shows "binary64 (binary64 (of_int c / 1000) * 100) \<le> binary64 (binary64 (of_int d / 1000) * 100)"
proof -
  have "(0::rat) \<le> of_int c / 1000" using assms by simp
  moreover have "(of_int c :: rat) / 1000 \<le> of_int d / 1000" using assms by simp
  ultimately have le: "binary64 (of_int c / 1000) \<le> binary64 (of_int d / 1000)"
    and nn: "0 \<le> binary64 (of_int c / 1000)"
    by (simp_all add: binary64_mono binary64_nonneg)
  from le have "binary64 (of_int c / 1000) * 100 \<le> binary64 (of_int d / 1000) * 100" by simp
  moreover from nn have "0 \<le> binary64 (of_int c / 1000) * 100" by simp
  ultimately show ?thesis by (rule binary64_mono [rotated])
qed

text \<open>
  The value of \<open>binary64\<close> at a number whose binade is known, and with it the progress
  at a length for which the two binades and the two rounded significands are given.
\<close>

lemma binade_unique:
  assumes "2 powi e \<le> q" and "q < 2 powi (e + 1)"
  shows "binade q = e"
proof -
  have q: "0 < q" using assms(1) by (rule less_le_trans [rotated]) simp
  from binade_bounds [OF q] have b: "2 powi binade q \<le> q" "q < 2 powi (binade q + 1)"
    by simp_all
  have "(2::rat) powi e < 2 powi (binade q + 1)" using assms(1) b(2) by simp
  then have 1: "e < binade q + 1"
    by (metis linorder_not_le one_le_numeral power_int_increasing)
  have "(2::rat) powi binade q < 2 powi (e + 1)" using assms(2) b(1) by simp
  then have 2: "binade q < e + 1"
    by (metis linorder_not_le one_le_numeral power_int_increasing)
  from 1 2 show ?thesis by simp
qed

lemma binary64_value:
  assumes "2 powi e \<le> q" and "q < 2 powi (e + 1)" and "- 1022 \<le> e"
    and "round_half_even (q / 2 powi (e - 52)) = m"
    and "r = of_int m * 2 powi (e - 52)"
  shows "binary64 q = r"
proof -
  have q: "0 < q" using assms(1) by (rule less_le_trans [rotated]) simp
  have "binade q = e" using assms(1,2) by (rule binade_unique)
  with q assms(3-5) show ?thesis by (simp add: binary64_pos max_def)
qed

lemma getProgress_value:
  assumes "x = of_int (clamp len 0 1000) / 1000"
    and "2 powi e \<le> x" and "x < 2 powi (e + 1)" and "- 1022 \<le> e"
    and "round_half_even (x / 2 powi (e - 52)) = m"
    and "y = of_int m * 2 powi (e - 52) * 100"
    and "2 powi f \<le> y" and "y < 2 powi (f + 1)" and "- 1022 \<le> f"
    and "round_half_even (y / 2 powi (f - 52)) = n"
    and "\<lfloor>of_int n * 2 powi (f - 52) + 1 / 2 :: rat\<rfloor> = p"
  shows "getProgress len = p"
proof -
  have "binary64 x = of_int m * 2 powi (e - 52)"
    using assms(2-5) by (rule binary64_value) simp
  then have "binary64 x * 100 = y" using assms(6) by simp
  moreover have "binary64 y = of_int n * 2 powi (f - 52)"
    using assms(7-10) by (rule binary64_value) simp
  ultimately show ?thesis
    using assms(1,11) by (simp add: getProgress_def Math_round_def)
qed

lemma floor_rat_numeral: "\<lfloor>numeral a / numeral b :: rat\<rfloor> = numeral a div numeral b"
  by (metis floor_divide_of_int_eq of_int_numeral)

lemmas value_simps = clamp_def round_half_even_def Let_def floor_rat_numeral

text \<open>
  The lengths that end in 5 are the ones whose exact percentage lies half way between
  two integers. There the roundings of the quotient and of the product decide the
  result, so each of the hundred cases is computed.
\<close>

lemma getProgress_5: "getProgress 5 = 1"
  by (rule getProgress_value [where e = "- 8" and m = 5764607523034235 and f = "- 1" and n = 4503599627370496
        and x = "1 / 200" and y = "144115188075855875 / 288230376151711744"])
    (simp_all add: value_simps)

lemma getProgress_15: "getProgress 15 = 2"
  by (rule getProgress_value [where e = "- 7" and m = 8646911284551352 and f = 0 and n = 6755399441055744
        and x = "3 / 200" and y = "27021597764222975 / 18014398509481984"])
    (simp_all add: value_simps)

lemma getProgress_25: "getProgress 25 = 3"
  by (rule getProgress_value [where e = "- 6" and m = 7205759403792794 and f = 1 and n = 5629499534213120
        and x = "1 / 40" and y = "90071992547409925 / 36028797018963968"])
    (simp_all add: value_simps)

lemma getProgress_35: "getProgress 35 = 4"
  by (rule getProgress_value [where e = "- 5" and m = 5044031582654956 and f = 1 and n = 7881299347898369
        and x = "7 / 200" and y = "31525197391593475 / 9007199254740992"])
    (simp_all add: value_simps)

lemma getProgress_45: "getProgress 45 = 5"
  by (rule getProgress_value [where e = "- 5" and m = 6485183463413514 and f = 2 and n = 5066549580791808
        and x = "9 / 200" and y = "81064793292668925 / 18014398509481984"])
    (simp_all add: value_simps)

lemma getProgress_55: "getProgress 55 = 6"
  by (rule getProgress_value [where e = "- 5" and m = 7926335344172073 and f = 2 and n = 6192449487634432
        and x = "11 / 200" and y = "198158383604301825 / 36028797018963968"])
    (simp_all add: value_simps)

lemma getProgress_65: "getProgress 65 = 7"
  by (rule getProgress_value [where e = "- 4" and m = 4683743612465316 and f = 2 and n = 7318349394477056
        and x = "13 / 200" and y = "29273397577908225 / 4503599627370496"])
    (simp_all add: value_simps)

lemma getProgress_75: "getProgress 75 = 8"
  by (rule getProgress_value [where e = "- 4" and m = 5404319552844595 and f = 2 and n = 8444249301319680
        and x = "3 / 40" and y = "135107988821114875 / 18014398509481984"])
    (simp_all add: value_simps)

lemma getProgress_85: "getProgress 85 = 9"
  by (rule getProgress_value [where e = "- 4" and m = 6124895493223875 and f = 3 and n = 4785074604081152
        and x = "17 / 200" and y = "153122387330596875 / 18014398509481984"])
    (simp_all add: value_simps)

lemma getProgress_95: "getProgress 95 = 10"
  by (rule getProgress_value [where e = "- 4" and m = 6845471433603154 and f = 3 and n = 5348024557502464
        and x = "19 / 200" and y = "85568392920039425 / 9007199254740992"])
    (simp_all add: value_simps)

lemma getProgress_105: "getProgress 105 = 11"
  by (rule getProgress_value [where e = "- 4" and m = 7566047373982433 and f = 3 and n = 5910974510923776
        and x = "21 / 200" and y = "189151184349560825 / 18014398509481984"])
    (simp_all add: value_simps)

lemma getProgress_115: "getProgress 115 = 12"
  by (rule getProgress_value [where e = "- 4" and m = 8286623314361713 and f = 3 and n = 6473924464345088
        and x = "23 / 200" and y = "207165582859042825 / 18014398509481984"])
    (simp_all add: value_simps)

lemma getProgress_125: "getProgress 125 = 13"
  by (rule getProgress_value [where e = "- 3" and m = 4503599627370496 and f = 3 and n = 7036874417766400
        and x = "1 / 8" and y = "25 / 2"])
    (simp_all add: value_simps)

lemma getProgress_135: "getProgress 135 = 14"
  by (rule getProgress_value [where e = "- 3" and m = 4863887597560136 and f = 3 and n = 7599824371187712
        and x = "27 / 200" and y = "15199648742375425 / 1125899906842624"])
    (simp_all add: value_simps)

lemma getProgress_145: "getProgress 145 = 14"
  by (rule getProgress_value [where e = "- 3" and m = 5224175567749775 and f = 3 and n = 8162774324609023
        and x = "29 / 200" and y = "130604389193744375 / 9007199254740992"])
    (simp_all add: value_simps)

lemma getProgress_155: "getProgress 155 = 16"
  by (rule getProgress_value [where e = "- 3" and m = 5584463537939415 and f = 3 and n = 8725724278030336
        and x = "31 / 200" and y = "139611588448485375 / 9007199254740992"])
    (simp_all add: value_simps)

lemma getProgress_165: "getProgress 165 = 17"
  by (rule getProgress_value [where e = "- 3" and m = 5944751508129055 and f = 4 and n = 4644337115725824
        and x = "33 / 200" and y = "148618787703226375 / 9007199254740992"])
    (simp_all add: value_simps)

lemma getProgress_175: "getProgress 175 = 18"
  by (rule getProgress_value [where e = "- 3" and m = 6305039478318694 and f = 4 and n = 4925812092436480
        and x = "7 / 40" and y = "78812993478983675 / 4503599627370496"])
    (simp_all add: value_simps)

lemma getProgress_185: "getProgress 185 = 19"
  by (rule getProgress_value [where e = "- 3" and m = 6665327448508334 and f = 4 and n = 5207287069147136
        and x = "37 / 200" and y = "83316593106354175 / 4503599627370496"])
    (simp_all add: value_simps)

lemma getProgress_195: "getProgress 195 = 20"
  by (rule getProgress_value [where e = "- 3" and m = 7025615418697974 and f = 4 and n = 5488762045857792
        and x = "39 / 200" and y = "87820192733724675 / 4503599627370496"])
    (simp_all add: value_simps)

lemma getProgress_205: "getProgress 205 = 21"
  by (rule getProgress_value [where e = "- 3" and m = 7385903388887613 and f = 4 and n = 5770237022568448
        and x = "41 / 200" and y = "184647584722190325 / 9007199254740992"])
    (simp_all add: value_simps)

lemma getProgress_215: "getProgress 215 = 22"
  by (rule getProgress_value [where e = "- 3" and m = 7746191359077253 and f = 4 and n = 6051711999279104
        and x = "43 / 200" and y = "193654783976931325 / 9007199254740992"])
    (simp_all add: value_simps)

lemma getProgress_225: "getProgress 225 = 23"
  by (rule getProgress_value [where e = "- 3" and m = 8106479329266893 and f = 4 and n = 6333186975989760
        and x = "9 / 40" and y = "202661983231672325 / 9007199254740992"])
    (simp_all add: value_simps)

lemma getProgress_235: "getProgress 235 = 24"
  by (rule getProgress_value [where e = "- 3" and m = 8466767299456532 and f = 4 and n = 6614661952700416
        and x = "47 / 200" and y = "52917295621603325 / 2251799813685248"])
    (simp_all add: value_simps)

lemma getProgress_245: "getProgress 245 = 25"
  by (rule getProgress_value [where e = "- 3" and m = 8827055269646172 and f = 4 and n = 6896136929411072
        and x = "49 / 200" and y = "55169095435288575 / 2251799813685248"])
    (simp_all add: value_simps)

lemma getProgress_255: "getProgress 255 = 26"
  by (rule getProgress_value [where e = "- 2" and m = 4593671619917906 and f = 4 and n = 7177611906121728
        and x = "51 / 200" and y = "57420895248973825 / 2251799813685248"])
    (simp_all add: value_simps)

lemma getProgress_265: "getProgress 265 = 27"
  by (rule getProgress_value [where e = "- 2" and m = 4773815605012726 and f = 4 and n = 7459086882832384
        and x = "53 / 200" and y = "59672695062659075 / 2251799813685248"])
    (simp_all add: value_simps)

lemma getProgress_275: "getProgress 275 = 28"
  by (rule getProgress_value [where e = "- 2" and m = 4953959590107546 and f = 4 and n = 7740561859543041
        and x = "11 / 40" and y = "61924494876344325 / 2251799813685248"])
    (simp_all add: value_simps)

lemma getProgress_285: "getProgress 285 = 28"
  by (rule getProgress_value [where e = "- 2" and m = 5134103575202365 and f = 4 and n = 8022036836253695
        and x = "57 / 200" and y = "128352589380059125 / 4503599627370496"])
    (simp_all add: value_simps)

lemma getProgress_295: "getProgress 295 = 30"
  by (rule getProgress_value [where e = "- 2" and m = 5314247560297185 and f = 4 and n = 8303511812964352
        and x = "59 / 200" and y = "132856189007429625 / 4503599627370496"])
    (simp_all add: value_simps)

lemma getProgress_305: "getProgress 305 = 31"
  by (rule getProgress_value [where e = "- 2" and m = 5494391545392005 and f = 4 and n = 8584986789675008
        and x = "61 / 200" and y = "137359788634800125 / 4503599627370496"])
    (simp_all add: value_simps)

lemma getProgress_315: "getProgress 315 = 32"
  by (rule getProgress_value [where e = "- 2" and m = 5674535530486825 and f = 4 and n = 8866461766385664
        and x = "63 / 200" and y = "141863388262170625 / 4503599627370496"])
    (simp_all add: value_simps)

lemma getProgress_325: "getProgress 325 = 33"
  by (rule getProgress_value [where e = "- 2" and m = 5854679515581645 and f = 5 and n = 4573968371548160
        and x = "13 / 40" and y = "146366987889541125 / 4503599627370496"])
    (simp_all add: value_simps)

lemma getProgress_335: "getProgress 335 = 34"
  by (rule getProgress_value [where e = "- 2" and m = 6034823500676465 and f = 5 and n = 4714705859903488
        and x = "67 / 200" and y = "150870587516911625 / 4503599627370496"])
    (simp_all add: value_simps)

lemma getProgress_345: "getProgress 345 = 35"
  by (rule getProgress_value [where e = "- 2" and m = 6214967485771284 and f = 5 and n = 4855443348258816
        and x = "69 / 200" and y = "38843546786070525 / 1125899906842624"])
    (simp_all add: value_simps)

lemma getProgress_355: "getProgress 355 = 36"
  by (rule getProgress_value [where e = "- 2" and m = 6395111470866104 and f = 5 and n = 4996180836614144
        and x = "71 / 200" and y = "19984723346456575 / 562949953421312"])
    (simp_all add: value_simps)

lemma getProgress_365: "getProgress 365 = 37"
  by (rule getProgress_value [where e = "- 2" and m = 6575255455960924 and f = 5 and n = 5136918324969472
        and x = "73 / 200" and y = "41095346599755775 / 1125899906842624"])
    (simp_all add: value_simps)

lemma getProgress_375: "getProgress 375 = 38"
  by (rule getProgress_value [where e = "- 2" and m = 6755399441055744 and f = 5 and n = 5277655813324800
        and x = "3 / 8" and y = "75 / 2"])
    (simp_all add: value_simps)

lemma getProgress_385: "getProgress 385 = 39"
  by (rule getProgress_value [where e = "- 2" and m = 6935543426150564 and f = 5 and n = 5418393301680128
        and x = "77 / 200" and y = "43347146413441025 / 1125899906842624"])
    (simp_all add: value_simps)

lemma getProgress_395: "getProgress 395 = 40"
  by (rule getProgress_value [where e = "- 2" and m = 7115687411245384 and f = 5 and n = 5559130790035456
        and x = "79 / 200" and y = "22236523160141825 / 562949953421312"])
    (simp_all add: value_simps)

lemma getProgress_405: "getProgress 405 = 41"
  by (rule getProgress_value [where e = "- 2" and m = 7295831396340204 and f = 5 and n = 5699868278390784
        and x = "81 / 200" and y = "45598946227126275 / 1125899906842624"])
    (simp_all add: value_simps)

lemma getProgress_415: "getProgress 415 = 42"
  by (rule getProgress_value [where e = "- 2" and m = 7475975381435023 and f = 5 and n = 5840605766746112
        and x = "83 / 200" and y = "186899384535875575 / 4503599627370496"])
    (simp_all add: value_simps)

lemma getProgress_425: "getProgress 425 = 43"
  by (rule getProgress_value [where e = "- 2" and m = 7656119366529843 and f = 5 and n = 5981343255101440
        and x = "17 / 40" and y = "191402984163246075 / 4503599627370496"])
    (simp_all add: value_simps)

lemma getProgress_435: "getProgress 435 = 44"
  by (rule getProgress_value [where e = "- 2" and m = 7836263351624663 and f = 5 and n = 6122080743456768
        and x = "87 / 200" and y = "195906583790616575 / 4503599627370496"])
    (simp_all add: value_simps)

lemma getProgress_445: "getProgress 445 = 45"
  by (rule getProgress_value [where e = "- 2" and m = 8016407336719483 and f = 5 and n = 6262818231812096
        and x = "89 / 200" and y = "200410183417987075 / 4503599627370496"])
    (simp_all add: value_simps)

lemma getProgress_455: "getProgress 455 = 46"
  by (rule getProgress_value [where e = "- 2" and m = 8196551321814303 and f = 5 and n = 6403555720167424
        and x = "91 / 200" and y = "204913783045357575 / 4503599627370496"])
    (simp_all add: value_simps)

lemma getProgress_465: "getProgress 465 = 47"
  by (rule getProgress_value [where e = "- 2" and m = 8376695306909123 and f = 5 and n = 6544293208522752
        and x = "93 / 200" and y = "209417382672728075 / 4503599627370496"])
    (simp_all add: value_simps)

lemma getProgress_475: "getProgress 475 = 48"
  by (rule getProgress_value [where e = "- 2" and m = 8556839292003942 and f = 5 and n = 6685030696878080
        and x = "19 / 40" and y = "106960491150049275 / 2251799813685248"])
    (simp_all add: value_simps)

lemma getProgress_485: "getProgress 485 = 49"
  by (rule getProgress_value [where e = "- 2" and m = 8736983277098762 and f = 5 and n = 6825768185233408
        and x = "97 / 200" and y = "109212290963734525 / 2251799813685248"])
    (simp_all add: value_simps)

lemma getProgress_495: "getProgress 495 = 50"
  by (rule getProgress_value [where e = "- 2" and m = 8917127262193582 and f = 5 and n = 6966505673588736
        and x = "99 / 200" and y = "111464090777419775 / 2251799813685248"])
    (simp_all add: value_simps)

lemma getProgress_505: "getProgress 505 = 51"
  by (rule getProgress_value [where e = "- 1" and m = 4548635623644201 and f = 5 and n = 7107243161944064
        and x = "101 / 200" and y = "113715890591105025 / 2251799813685248"])
    (simp_all add: value_simps)

lemma getProgress_515: "getProgress 515 = 52"
  by (rule getProgress_value [where e = "- 1" and m = 4638707616191611 and f = 5 and n = 7247980650299392
        and x = "103 / 200" and y = "115967690404790275 / 2251799813685248"])
    (simp_all add: value_simps)

lemma getProgress_525: "getProgress 525 = 53"
  by (rule getProgress_value [where e = "- 1" and m = 4728779608739021 and f = 5 and n = 7388718138654720
        and x = "21 / 40" and y = "118219490218475525 / 2251799813685248"])
    (simp_all add: value_simps)

lemma getProgress_535: "getProgress 535 = 54"
  by (rule getProgress_value [where e = "- 1" and m = 4818851601286431 and f = 5 and n = 7529455627010048
        and x = "107 / 200" and y = "120471290032160775 / 2251799813685248"])
    (simp_all add: value_simps)

lemma getProgress_545: "getProgress 545 = 55"
  by (rule getProgress_value [where e = "- 1" and m = 4908923593833841 and f = 5 and n = 7670193115365377
        and x = "109 / 200" and y = "122723089845846025 / 2251799813685248"])
    (simp_all add: value_simps)

lemma getProgress_555: "getProgress 555 = 56"
  by (rule getProgress_value [where e = "- 1" and m = 4998995586381251 and f = 5 and n = 7810930603720705
        and x = "111 / 200" and y = "124974889659531275 / 2251799813685248"])
    (simp_all add: value_simps)

lemma getProgress_565: "getProgress 565 = 56"
  by (rule getProgress_value [where e = "- 1" and m = 5089067578928660 and f = 5 and n = 7951668092076031
        and x = "113 / 200" and y = "31806672368304125 / 562949953421312"])
    (simp_all add: value_simps)

lemma getProgress_575: "getProgress 575 = 57"
  by (rule getProgress_value [where e = "- 1" and m = 5179139571476070 and f = 5 and n = 8092405580431359
        and x = "23 / 40" and y = "64739244643450875 / 1125899906842624"])
    (simp_all add: value_simps)

lemma getProgress_585: "getProgress 585 = 59"
  by (rule getProgress_value [where e = "- 1" and m = 5269211564023480 and f = 5 and n = 8233143068786688
        and x = "117 / 200" and y = "16466286137573375 / 281474976710656"])
    (simp_all add: value_simps)

lemma getProgress_595: "getProgress 595 = 60"
  by (rule getProgress_value [where e = "- 1" and m = 5359283556570890 and f = 5 and n = 8373880557142016
        and x = "119 / 200" and y = "66991044457136125 / 1125899906842624"])
    (simp_all add: value_simps)

lemma getProgress_605: "getProgress 605 = 61"
  by (rule getProgress_value [where e = "- 1" and m = 5449355549118300 and f = 5 and n = 8514618045497344
        and x = "121 / 200" and y = "34058472181989375 / 562949953421312"])
    (simp_all add: value_simps)

lemma getProgress_615: "getProgress 615 = 62"
  by (rule getProgress_value [where e = "- 1" and m = 5539427541665710 and f = 5 and n = 8655355533852672
        and x = "123 / 200" and y = "69242844270821375 / 1125899906842624"])
    (simp_all add: value_simps)

lemma getProgress_625: "getProgress 625 = 63"
  by (rule getProgress_value [where e = "- 1" and m = 5629499534213120 and f = 5 and n = 8796093022208000
        and x = "5 / 8" and y = "125 / 2"])
    (simp_all add: value_simps)

lemma getProgress_635: "getProgress 635 = 64"
  by (rule getProgress_value [where e = "- 1" and m = 5719571526760530 and f = 5 and n = 8936830510563328
        and x = "127 / 200" and y = "71494644084506625 / 1125899906842624"])
    (simp_all add: value_simps)

lemma getProgress_645: "getProgress 645 = 65"
  by (rule getProgress_value [where e = "- 1" and m = 5809643519307940 and f = 6 and n = 4538783999459328
        and x = "129 / 200" and y = "36310271995674625 / 562949953421312"])
    (simp_all add: value_simps)

lemma getProgress_655: "getProgress 655 = 66"
  by (rule getProgress_value [where e = "- 1" and m = 5899715511855350 and f = 6 and n = 4609152743636992
        and x = "131 / 200" and y = "73746443898191875 / 1125899906842624"])
    (simp_all add: value_simps)

lemma getProgress_665: "getProgress 665 = 67"
  by (rule getProgress_value [where e = "- 1" and m = 5989787504402760 and f = 6 and n = 4679521487814656
        and x = "133 / 200" and y = "18718085951258625 / 281474976710656"])
    (simp_all add: value_simps)

lemma getProgress_675: "getProgress 675 = 68"
  by (rule getProgress_value [where e = "- 1" and m = 6079859496950170 and f = 6 and n = 4749890231992320
        and x = "27 / 40" and y = "75998243711877125 / 1125899906842624"])
    (simp_all add: value_simps)

lemma getProgress_685: "getProgress 685 = 69"
  by (rule getProgress_value [where e = "- 1" and m = 6169931489497580 and f = 6 and n = 4820258976169984
        and x = "137 / 200" and y = "38562071809359875 / 562949953421312"])
    (simp_all add: value_simps)

lemma getProgress_695: "getProgress 695 = 70"
  by (rule getProgress_value [where e = "- 1" and m = 6260003482044989 and f = 6 and n = 4890627720347648
        and x = "139 / 200" and y = "156500087051124725 / 2251799813685248"])
    (simp_all add: value_simps)

lemma getProgress_705: "getProgress 705 = 71"
  by (rule getProgress_value [where e = "- 1" and m = 6350075474592399 and f = 6 and n = 4960996464525312
        and x = "141 / 200" and y = "158751886864809975 / 2251799813685248"])
    (simp_all add: value_simps)

lemma getProgress_715: "getProgress 715 = 72"
  by (rule getProgress_value [where e = "- 1" and m = 6440147467139809 and f = 6 and n = 5031365208702976
        and x = "143 / 200" and y = "161003686678495225 / 2251799813685248"])
    (simp_all add: value_simps)

lemma getProgress_725: "getProgress 725 = 73"
  by (rule getProgress_value [where e = "- 1" and m = 6530219459687219 and f = 6 and n = 5101733952880640
        and x = "29 / 40" and y = "163255486492180475 / 2251799813685248"])
    (simp_all add: value_simps)

lemma getProgress_735: "getProgress 735 = 74"
  by (rule getProgress_value [where e = "- 1" and m = 6620291452234629 and f = 6 and n = 5172102697058304
        and x = "147 / 200" and y = "165507286305865725 / 2251799813685248"])
    (simp_all add: value_simps)

lemma getProgress_745: "getProgress 745 = 75"
  by (rule getProgress_value [where e = "- 1" and m = 6710363444782039 and f = 6 and n = 5242471441235968
        and x = "149 / 200" and y = "167759086119550975 / 2251799813685248"])
    (simp_all add: value_simps)

lemma getProgress_755: "getProgress 755 = 76"
  by (rule getProgress_value [where e = "- 1" and m = 6800435437329449 and f = 6 and n = 5312840185413632
        and x = "151 / 200" and y = "170010885933236225 / 2251799813685248"])
    (simp_all add: value_simps)

lemma getProgress_765: "getProgress 765 = 77"
  by (rule getProgress_value [where e = "- 1" and m = 6890507429876859 and f = 6 and n = 5383208929591296
        and x = "153 / 200" and y = "172262685746921475 / 2251799813685248"])
    (simp_all add: value_simps)

lemma getProgress_775: "getProgress 775 = 78"
  by (rule getProgress_value [where e = "- 1" and m = 6980579422424269 and f = 6 and n = 5453577673768960
        and x = "31 / 40" and y = "174514485560606725 / 2251799813685248"])
    (simp_all add: value_simps)

lemma getProgress_785: "getProgress 785 = 79"
  by (rule getProgress_value [where e = "- 1" and m = 7070651414971679 and f = 6 and n = 5523946417946624
        and x = "157 / 200" and y = "176766285374291975 / 2251799813685248"])
    (simp_all add: value_simps)

lemma getProgress_795: "getProgress 795 = 80"
  by (rule getProgress_value [where e = "- 1" and m = 7160723407519089 and f = 6 and n = 5594315162124288
        and x = "159 / 200" and y = "179018085187977225 / 2251799813685248"])
    (simp_all add: value_simps)

lemma getProgress_805: "getProgress 805 = 81"
  by (rule getProgress_value [where e = "- 1" and m = 7250795400066499 and f = 6 and n = 5664683906301952
        and x = "161 / 200" and y = "181269885001662475 / 2251799813685248"])
    (simp_all add: value_simps)

lemma getProgress_815: "getProgress 815 = 82"
  by (rule getProgress_value [where e = "- 1" and m = 7340867392613908 and f = 6 and n = 5735052650479616
        and x = "163 / 200" and y = "45880421203836925 / 562949953421312"])
    (simp_all add: value_simps)

lemma getProgress_825: "getProgress 825 = 83"
  by (rule getProgress_value [where e = "- 1" and m = 7430939385161318 and f = 6 and n = 5805421394657280
        and x = "33 / 40" and y = "92886742314516475 / 1125899906842624"])
    (simp_all add: value_simps)

lemma getProgress_835: "getProgress 835 = 84"
  by (rule getProgress_value [where e = "- 1" and m = 7521011377708728 and f = 6 and n = 5875790138834944
        and x = "167 / 200" and y = "23503160555339775 / 281474976710656"])
    (simp_all add: value_simps)

lemma getProgress_845: "getProgress 845 = 85"
  by (rule getProgress_value [where e = "- 1" and m = 7611083370256138 and f = 6 and n = 5946158883012608
        and x = "169 / 200" and y = "95138542128201725 / 1125899906842624"])
    (simp_all add: value_simps)

lemma getProgress_855: "getProgress 855 = 86"
  by (rule getProgress_value [where e = "- 1" and m = 7701155362803548 and f = 6 and n = 6016527627190272
        and x = "171 / 200" and y = "48132221017522175 / 562949953421312"])
    (simp_all add: value_simps)

lemma getProgress_865: "getProgress 865 = 87"
  by (rule getProgress_value [where e = "- 1" and m = 7791227355350958 and f = 6 and n = 6086896371367936
        and x = "173 / 200" and y = "97390341941886975 / 1125899906842624"])
    (simp_all add: value_simps)

lemma getProgress_875: "getProgress 875 = 88"
  by (rule getProgress_value [where e = "- 1" and m = 7881299347898368 and f = 6 and n = 6157265115545600
        and x = "7 / 8" and y = "175 / 2"])
    (simp_all add: value_simps)

lemma getProgress_885: "getProgress 885 = 89"
  by (rule getProgress_value [where e = "- 1" and m = 7971371340445778 and f = 6 and n = 6227633859723264
        and x = "177 / 200" and y = "99642141755572225 / 1125899906842624"])
    (simp_all add: value_simps)

lemma getProgress_895: "getProgress 895 = 90"
  by (rule getProgress_value [where e = "- 1" and m = 8061443332993188 and f = 6 and n = 6298002603900928
        and x = "179 / 200" and y = "50384020831207425 / 562949953421312"])
    (simp_all add: value_simps)

lemma getProgress_905: "getProgress 905 = 91"
  by (rule getProgress_value [where e = "- 1" and m = 8151515325540598 and f = 6 and n = 6368371348078592
        and x = "181 / 200" and y = "101893941569257475 / 1125899906842624"])
    (simp_all add: value_simps)

lemma getProgress_915: "getProgress 915 = 92"
  by (rule getProgress_value [where e = "- 1" and m = 8241587318088008 and f = 6 and n = 6438740092256256
        and x = "183 / 200" and y = "25754960369025025 / 281474976710656"])
    (simp_all add: value_simps)

lemma getProgress_925: "getProgress 925 = 93"
  by (rule getProgress_value [where e = "- 1" and m = 8331659310635418 and f = 6 and n = 6509108836433920
        and x = "37 / 40" and y = "104145741382942725 / 1125899906842624"])
    (simp_all add: value_simps)

lemma getProgress_935: "getProgress 935 = 94"
  by (rule getProgress_value [where e = "- 1" and m = 8421731303182828 and f = 6 and n = 6579477580611584
        and x = "187 / 200" and y = "52635820644892675 / 562949953421312"])
    (simp_all add: value_simps)

lemma getProgress_945: "getProgress 945 = 95"
  by (rule getProgress_value [where e = "- 1" and m = 8511803295730237 and f = 6 and n = 6649846324789248
        and x = "189 / 200" and y = "212795082393255925 / 2251799813685248"])
    (simp_all add: value_simps)

lemma getProgress_955: "getProgress 955 = 96"
  by (rule getProgress_value [where e = "- 1" and m = 8601875288277647 and f = 6 and n = 6720215068966912
        and x = "191 / 200" and y = "215046882206941175 / 2251799813685248"])
    (simp_all add: value_simps)

lemma getProgress_965: "getProgress 965 = 97"
  by (rule getProgress_value [where e = "- 1" and m = 8691947280825057 and f = 6 and n = 6790583813144576
        and x = "193 / 200" and y = "217298682020626425 / 2251799813685248"])
    (simp_all add: value_simps)

lemma getProgress_975: "getProgress 975 = 98"
  by (rule getProgress_value [where e = "- 1" and m = 8782019273372467 and f = 6 and n = 6860952557322240
        and x = "39 / 40" and y = "219550481834311675 / 2251799813685248"])
    (simp_all add: value_simps)

lemma getProgress_985: "getProgress 985 = 99"
  by (rule getProgress_value [where e = "- 1" and m = 8872091265919877 and f = 6 and n = 6931321301499904
        and x = "197 / 200" and y = "221802281647996925 / 2251799813685248"])
    (simp_all add: value_simps)

lemma getProgress_995: "getProgress 995 = 100"
  by (rule getProgress_value [where e = "- 1" and m = 8962163258467287 and f = 6 and n = 7001690045677568
        and x = "199 / 200" and y = "224054081461682175 / 2251799813685248"])
    (simp_all add: value_simps)

lemmas getProgress_halves =
  getProgress_5 getProgress_15 getProgress_25 getProgress_35 getProgress_45 getProgress_55
  getProgress_65 getProgress_75 getProgress_85 getProgress_95 getProgress_105
  getProgress_115 getProgress_125 getProgress_135 getProgress_145 getProgress_155
  getProgress_165 getProgress_175 getProgress_185 getProgress_195 getProgress_205
  getProgress_215 getProgress_225 getProgress_235 getProgress_245 getProgress_255
  getProgress_265 getProgress_275 getProgress_285 getProgress_295 getProgress_305
  getProgress_315 getProgress_325 getProgress_335 getProgress_345 getProgress_355
  getProgress_365 getProgress_375 getProgress_385 getProgress_395 getProgress_405
  getProgress_415 getProgress_425 getProgress_435 getProgress_445 getProgress_455
  getProgress_465 getProgress_475 getProgress_485 getProgress_495 getProgress_505
  getProgress_515 getProgress_525 getProgress_535 getProgress_545 getProgress_555
  getProgress_565 getProgress_575 getProgress_585 getProgress_595 getProgress_605
  getProgress_615 getProgress_625 getProgress_635 getProgress_645 getProgress_655
  getProgress_665 getProgress_675 getProgress_685 getProgress_695 getProgress_705
  getProgress_715 getProgress_725 getProgress_735 getProgress_745 getProgress_755
  getProgress_765 getProgress_775 getProgress_785 getProgress_795 getProgress_805
  getProgress_815 getProgress_825 getProgress_835 getProgress_845 getProgress_855
  getProgress_865 getProgress_875 getProgress_885 getProgress_895 getProgress_905
  getProgress_915 getProgress_925 getProgress_935 getProgress_945 getProgress_955
  getProgress_965 getProgress_975 getProgress_985 getProgress_995


lemma halves_list:
  "list_all
     (\<lambda>k. getProgress (10 * k - 15) = k - 1 - (if k \<in> {16, 30, 58, 59} then 1 else 0))
     [2..101]"
  by (simp add: getProgress_halves)

lemma getProgress_half:
  assumes "0 \<le> c" and "c \<le> 1000" and "c mod 10 = 5"
  shows "getProgress c = (c + 5) div 10 - (if c \<in> {145, 285, 565, 575} then 1 else 0)"
proof -
  define k where "k = (c + 15) div 10"
  have c: "c = 10 * k - 15" using assms(3) unfolding k_def by presburger
  have "2 \<le> k" using assms(1,3) unfolding k_def by presburger
  moreover have "k \<le> 101" using assms(2) unfolding k_def by presburger
  ultimately
  have "k \<in> set [2..101]" by (simp only: set_upto atLeastAtMost_iff)
  with halves_list
  have "getProgress (10 * k - 15) = k - 1 - (if k \<in> {16, 30, 58, 59} then 1 else 0)"
    unfolding list_all_iff by blast
  moreover have "(c + 5) div 10 = k - 1" unfolding c by simp
  moreover have "c \<in> {145, 285, 565, 575} \<longleftrightarrow> k \<in> {16, 30, 58, 59}"
    unfolding c by auto
  ultimately show ?thesis unfolding c by simp
qed

text \<open>
  At every other length the exact percentage is at least a tenth away from half way,
  and the two roundings move it by far less.
\<close>

lemma binary64_error:
  assumes "0 \<le> q" and "q \<le> 128"
  shows "\<bar>binary64 q - q\<bar> \<le> 2 powi (- 46)"
proof (cases "q = 0")
  case True
  then show ?thesis by (simp add: binary64_def)
next
  case False
  with assms have q: "0 < q" by simp
  have "(2::rat) powi binade q \<le> q" using binade_bounds [OF q] by simp
  also have "q \<le> 2 powi 7" using assms(2) by simp
  finally have "binade q \<le> 7"
    by (rule power_int_le_imp_le_exp [rotated]) simp_all
  then have "max (binade q) (- 1022) - 52 \<le> - 45" by simp
  then have "(2::rat) powi (max (binade q) (- 1022) - 52) \<le> 2 powi (- 45)"
    by (rule power_int_increasing) simp
  then have "(2::rat) powi (max (binade q) (- 1022) - 52) / 2 \<le> 2 powi (- 46)"
    by simp
  with binary64_nearest [OF q] show ?thesis by simp
qed

lemma percent_error:
  assumes "0 \<le> c" and "c \<le> 1000"
  shows "\<bar>binary64 (binary64 (of_int c / 1000) * 100) - of_int c / 10\<bar> \<le> 101 * 2 powi (- 46)"
proof -
  define x :: rat where "x = of_int c / 1000"
  define y where "y = binary64 x"
  have x: "0 \<le> x" "x \<le> 128" using assms by (simp_all add: x_def)
  have y: "0 \<le> y * 100" "y * 100 \<le> 128"
    using quotient_range [OF assms] by (simp_all add: y_def x_def)
  have 1: "\<bar>y - x\<bar> \<le> 2 powi (- 46)"
    unfolding y_def using x by (rule binary64_error)
  have 2: "\<bar>binary64 (y * 100) - y * 100\<bar> \<le> 2 powi (- 46)"
    using y by (rule binary64_error)
  have "binary64 (y * 100) - of_int c / 10 = (binary64 (y * 100) - y * 100) + 100 * (y - x)"
    by (simp add: x_def)
  then have "\<bar>binary64 (y * 100) - of_int c / 10\<bar>
      = \<bar>(binary64 (y * 100) - y * 100) + 100 * (y - x)\<bar>"
    by (simp only:)
  also have "\<dots> \<le> \<bar>binary64 (y * 100) - y * 100\<bar> + \<bar>100 * (y - x)\<bar>"
    by (rule abs_triangle_ineq)
  also have "\<dots> = \<bar>binary64 (y * 100) - y * 100\<bar> + 100 * \<bar>y - x\<bar>"
    by (simp only: abs_mult abs_numeral)
  also have "\<dots> \<le> 2 powi (- 46) + 100 * 2 powi (- 46)"
    using 1 2 by (intro add_mono mult_left_mono) simp_all
  finally show ?thesis by (simp add: y_def x_def)
qed

lemma getProgress_generic:
  assumes "0 \<le> c" and "c \<le> 1000" and "c mod 10 \<noteq> 5"
  shows "getProgress c = (c + 5) div 10"
proof -
  define z where "z = binary64 (binary64 (of_int c / 1000) * 100)"
  define n where "n = (c + 5) div 10"
  define r where "r = (c + 5) mod 10"
  have r: "1 \<le> r" "r \<le> 9" using assms(3) unfolding r_def by presburger+
  have "c + 5 = 10 * n + r" unfolding n_def r_def by simp
  then have "(of_int (c + 5) :: rat) = of_int (10 * n + r)" by (simp only:)
  then have e: "(of_int c :: rat) / 10 + 1 / 2 = of_int n + of_int r / 10" by simp
  have r': "(1::rat) \<le> of_int r" "(of_int r :: rat) \<le> 9"
    using r by simp_all
  have small: "101 * (2::rat) powi (- 46) < 1 / 10" by simp
  from percent_error [OF assms(1,2)] have "\<bar>z - of_int c / 10\<bar> \<le> 101 * 2 powi (- 46)"
    by (simp add: z_def)
  with small have d: "\<bar>z - of_int c / 10\<bar> < 1 / 10" by simp
  have "\<lfloor>z + 1 / 2\<rfloor> = n"
  proof (rule floor_unique)
    show "of_int n \<le> z + 1 / 2" using d e r'(1) by linarith
    show "z + 1 / 2 < of_int n + 1" using d e r'(2) by linarith
  qed
  moreover have "clamp c 0 1000 = c" using assms(1,2) by (simp add: clamp_def)
  ultimately show ?thesis by (simp add: getProgress_def Math_round_def z_def n_def)
qed

text \<open>The progress in integer arithmetic.\<close>

lemma getProgress_closed:
  "getProgress len =
     (max 0 (min 1000 len) + 5) div 10
       - (if max 0 (min 1000 len) \<in> {145, 285, 565, 575} then 1 else 0)"
proof -
  define c where "c = max 0 (min 1000 len)"
  have c: "0 \<le> c" "c \<le> 1000" by (simp_all add: c_def)
  have cl: "clamp c 0 1000 = c" using c by (simp add: clamp_def)
  have "getProgress len = getProgress c"
    by (simp add: getProgress_def clamp_def c_def)
  also have "\<dots> = (c + 5) div 10 - (if c \<in> {145, 285, 565, 575} then 1 else 0)"
  proof (cases "c mod 10 = 5")
    case True
    with c show ?thesis by (rule getProgress_half)
  next
    case False
    with c have "getProgress c = (c + 5) div 10" by (rule getProgress_generic)
    moreover from False have "c \<notin> {145, 285, 565, 575}" by auto
    ultimately show ?thesis by simp
  qed
  finally show ?thesis by (simp add: c_def)
qed

text \<open>
  The formula in exact arithmetic, with \<open>round\<close> the nearest integer and halves
  rounded up.
\<close>

lemma round_tenths: "round (of_int c / 1000 * 100 :: rat) = (c + 5) div 10"
proof -
  have "(of_int c :: rat) / 1000 * 100 + 1 / 2 = of_int (c + 5) / of_int 10" by simp
  then show ?thesis unfolding round_def by (simp only: floor_divide_of_int_eq)
qed

text \<open>
  Claim C6, as the code computes it. For every length (in particular every
  non-negative one) the progress is the exact value of
  \<open>round(clamp(length, 0, 1000) / 1000 * 100)\<close>, halves rounded up, except at the
  lengths 145, 285, 565 and 575, where the binary64 roundings of the quotient and of
  the product leave the percentage just below the half and the progress is one less.
  It is an integer between 0 and 100, it does not decrease when the length grows, and
  it is 100 from 1000 characters on. The lengths 0, 500, 1000 and 5000 give 0, 50, 100
  and 100.
\<close>

theorem progress_rounding:
  "getProgress len =
     round (of_int (max 0 (min 1000 len)) / 1000 * 100 :: rat)
       - (if max 0 (min 1000 len) \<in> {145, 285, 565, 575} then 1 else 0)
   \<and> 0 \<le> getProgress len \<and> getProgress len \<le> 100
   \<and> (len \<le> len' \<longrightarrow> getProgress len \<le> getProgress len')
   \<and> (1000 \<le> len \<longrightarrow> getProgress len = 100)
   \<and> getProgress 0 = 0 \<and> getProgress 500 = 50 \<and> getProgress 1000 = 100
   \<and> getProgress 5000 = 100"
proof -
  have f: "getProgress len =
      round (of_int (max 0 (min 1000 len)) / 1000 * 100 :: rat)
        - (if max 0 (min 1000 len) \<in> {145, 285, 565, 575} then 1 else 0)"
    by (simp only: round_tenths getProgress_closed)
  have r: "0 \<le> getProgress len \<and> getProgress len \<le> 100"
  proof -
    from percent_range [OF clamp_range [THEN conjunct1] clamp_range [THEN conjunct2], of len]
    have "Math_round (of_int 0) \<le> getProgress len"
      and "getProgress len \<le> Math_round (of_int 100)"
      unfolding getProgress_def by (simp_all add: Math_round_mono)
    then show ?thesis by (simp only: Math_round_of_int)
  qed
  have m: "getProgress len \<le> getProgress len'" if "len \<le> len'"
    unfolding getProgress_def
    by (intro Math_round_mono percent_mono clamp_mono that) (simp add: clamp_range)
  have s: "getProgress len = 100" if "1000 \<le> len"
    using that by (simp add: getProgress_closed)
  have v0: "getProgress 0 = 0" by (simp add: getProgress_closed)
  have v500: "getProgress 500 = 50" by (simp add: getProgress_closed)
  have v1000: "getProgress 1000 = 100" by (simp add: getProgress_closed)
  have v5000: "getProgress 5000 = 100" by (simp add: getProgress_closed)
  show ?thesis using f r m s v0 v500 v1000 v5000 by blast
qed

theorem progress_rounding_witness:
  "getProgress 26 = 3 \<and> getProgress 145 = 14 \<and> getProgress 575 = 57
   \<and> getProgress 145 \<le> getProgress 575 \<and> getProgress 1234 = 100"
  using progress_rounding [of 26 26] progress_rounding [of 145 575]
    progress_rounding [of 575 575] progress_rounding [of 1234 1234]
  by (simp add: round_def floor_rat_numeral)

text \<open>
  Claim C6 as it is worded has the formula in plain arithmetic. At 575 characters the
  percentage is exactly 57.5 and rounds to 58; the code divides and multiplies in
  binary64, gets a product just below 57.5, and shows 57.
\<close>

theorem progress_formula_counterexample:
  "getProgress 575 = 57
   \<and> round (of_int (clamp 575 0 1000) / 1000 * 100 :: rat) = 58
   \<and> getProgress 575 \<noteq> round (of_int (clamp 575 0 1000) / 1000 * 100 :: rat)"
  by (simp add: getProgress_575 clamp_def round_def)

section \<open>Properties of the save status\<close>

lemma timer_inv_cases:
  "timer_inv p \<longleftrightarrow>
     0 < nextHandle p \<and>
     (timers p = [] \<or>
      (\<exists>h d. timers p = [(h, d)] \<and> h \<noteq> 0 \<and> h < nextHandle p \<and> saveTimerRef p = Some h
         \<and> mounted p))"
  by (auto simp add: timer_inv_def split: list.splits)

lemma handleContentChange_empty:
  "handleContentChange [] p = p\<lparr>contentLength := 0, paragraphCount := 0\<rparr>"
  by (simp add: handleContentChange_def trim_def)

lemma handleContentChange_text:
  assumes "timer_inv p" and "content \<noteq> []"
  shows "handleContentChange content p =
     p\<lparr>contentLength := length content,
       paragraphCount := length (filter (\<lambda>line. 0 < length (trim line)) (split_LF content)),
       saveStatus := Editing,
       timers := [(nextHandle p, now p + 900)],
       nextHandle := Suc (nextHandle p),
       saveTimerRef := Some (nextHandle p)\<rparr>"
  using assms
  by (auto simp add: timer_inv_cases handleContentChange_def Let_def setTimeout_def
      clearSaveTimer_def clearTimeout_def split: option.splits)

lemma timer_inv_mount: "0 < h0 \<Longrightarrow> timer_inv (mount h0)"
  by (simp add: timer_inv_def mount_def)

lemma timer_inv_step: "timer_inv p \<Longrightarrow> timer_inv (step e p)"
proof (cases e)
  case (ContentChange content)
  assume inv: "timer_inv p"
  show ?thesis
  proof (cases "mounted p \<and> content \<noteq> []")
    case True
    with inv ContentChange show ?thesis
      by (simp add: handleContentChange_text) (simp add: timer_inv_def)
  next
    case False
    with inv ContentChange show ?thesis
      by (auto simp add: handleContentChange_empty timer_inv_def split: list.splits)
  qed
next
  case (Elapse ms)
  assume "timer_inv p"
  with Elapse show ?thesis by (auto simp add: timer_inv_cases)
next
  case (Fire h)
  assume "timer_inv p"
  with Fire show ?thesis
    by (auto simp add: timer_inv_cases fire_def clearTimeout_def split: option.splits if_splits)
next
  case OtherTimer
  assume "timer_inv p"
  with OtherTimer show ?thesis by (auto simp add: timer_inv_cases)
next
  case Unmount
  assume "timer_inv p"
  with Unmount show ?thesis
    by (auto simp add: timer_inv_cases cleanup_def clearSaveTimer_def clearTimeout_def
        split: option.splits)
qed

lemma timer_inv_run: "timer_inv p \<Longrightarrow> timer_inv (run es p)"
  by (induction es arbitrary: p) (simp_all add: timer_inv_step)

lemma timer_inv_reachable: "0 < h0 \<Longrightarrow> timer_inv (run es (mount h0))"
  by (simp add: timer_inv_run timer_inv_mount)

text \<open>While every set timer is due later than the time a quiet history takes, the status stays.\<close>

lemma quiet_keeps_status:
  "quiet es \<Longrightarrow> \<forall>t \<in> set (timers p). now p + elapsed es < snd t \<Longrightarrow>
     saveStatus (run es p) = saveStatus p"
proof (induction es arbitrary: p)
  case Nil
  show ?case by simp
next
  case (Cons e es)
  show ?case
  proof (cases e)
    case (ContentChange content)
    with Cons.prems have c: "content = []" and q: "quiet es" by simp_all
    have "saveStatus (run es (step e p)) = saveStatus (step e p)"
      using Cons.prems(2) ContentChange c
      by (intro Cons.IH [OF q]) (simp add: handleContentChange_empty)
    then show ?thesis using ContentChange c by (simp add: handleContentChange_empty)
  next
    case (Elapse ms)
    with Cons.prems have q: "quiet es" by simp
    have "saveStatus (run es (step e p)) = saveStatus (step e p)"
      using Cons.prems(2) Elapse
      by (intro Cons.IH [OF q]) (simp add: add.assoc)
    then show ?thesis using Elapse by simp
  next
    case (Fire h)
    with Cons.prems have q: "quiet es" by simp
    have same: "step e p = p"
    proof (cases "map_of (timers p) h")
      case None
      with Fire show ?thesis by (simp add: fire_def)
    next
      case (Some due)
      then have "(h, due) \<in> set (timers p)" by (rule map_of_SomeD)
      with Cons.prems(2) have "now p < due" by fastforce
      with Fire Some show ?thesis by (simp add: fire_def)
    qed
    have "saveStatus (run es p) = saveStatus p"
      using Cons.prems(2) Fire by (intro Cons.IH [OF q]) simp
    with same show ?thesis by simp
  next
    case OtherTimer
    with Cons.prems have q: "quiet es" by simp
    have "saveStatus (run es (step e p)) = saveStatus (step e p)"
      using Cons.prems(2) OtherTimer by (intro Cons.IH [OF q]) simp
    then show ?thesis using OtherTimer by simp
  next
    case Unmount
    with Cons.prems have q: "quiet es" by simp
    have "saveStatus (run es (step e p)) = saveStatus (step e p)"
      using Cons.prems(2) Unmount
      by (intro Cons.IH [OF q])
        (auto simp add: cleanup_def clearSaveTimer_def clearTimeout_def split: option.splits)
    then show ?thesis using Unmount
      by (auto simp add: cleanup_def clearSaveTimer_def clearTimeout_def split: option.splits)
  qed
qed

lemma unmounted_step:
  "\<not> mounted p \<Longrightarrow> timers p = [] \<Longrightarrow>
     saveStatus (step e p) = saveStatus p \<and> timers (step e p) = [] \<and> \<not> mounted (step e p)"
  by (cases e) (simp_all add: fire_def)

lemma unmounted_stays:
  "\<not> mounted p \<Longrightarrow> timers p = [] \<Longrightarrow>
     saveStatus (run es p) = saveStatus p \<and> timers (run es p) = [] \<and> \<not> mounted (run es p)"
proof (induction es arbitrary: p)
  case Nil
  then show ?case by simp
next
  case (Cons e es)
  from Cons.prems have s: "saveStatus (step e p) = saveStatus p \<and> timers (step e p) = []
      \<and> \<not> mounted (step e p)"
    by (rule unmounted_step)
  with Cons.IH [of "step e p"] show ?case by simp
qed


lemma now_run: "now (run es p) = now p + elapsed es"
proof (induction es arbitrary: p)
  case Nil
  show ?case by simp
next
  case (Cons e es)
  have "now (step e p) + elapsed es = now p + elapsed (e # es)"
    by (cases e)
      (auto simp add: handleContentChange_def Let_def setTimeout_def clearSaveTimer_def
        clearTimeout_def cleanup_def fire_def split: option.splits prod.splits)
  with Cons.IH [of "step e p"] show ?case by simp
qed

lemmas eval_defs =
  mount_def handleContentChange_def Let_def setTimeout_def clearSaveTimer_def clearTimeout_def
  cleanup_def fire_def trim_def isWhiteSpace_def LF_def

lemma fire_due:
  "timers p = [(h, due)] \<Longrightarrow> due \<le> now p + ms \<Longrightarrow>
     saveStatus (run [Elapse ms, Fire h] p) = Saved
     \<and> timers (run [Elapse ms, Fire h] p) = []"
  by (simp add: fire_def clearTimeout_def)

text \<open>
  Claim C7. In every state the page reaches from its mount, whatever the history of
  content changes, passing time, timer runs, foreign timers and unmounting, at most
  one timer of the tracker is set. A content change with text on a mounted page leaves
  exactly the timer it sets, due 900 ms later, under a handle that no timer set before
  the call has. The window hands out positive handles, as the HTML standard requires.
\<close>

theorem one_timer:
  assumes "0 < h0" and "p = run es (mount h0)"
  shows "length (timers p) \<le> 1
     \<and> (mounted p \<and> content \<noteq> [] \<longrightarrow>
          timers (step (ContentChange content) p) = [(nextHandle p, now p + 900)]
          \<and> nextHandle p \<notin> fst ` set (timers p))"
proof -
  from assms have inv: "timer_inv p" by (simp add: timer_inv_reachable)
  then have "length (timers p) \<le> 1" and "nextHandle p \<notin> fst ` set (timers p)"
    by (auto simp add: timer_inv_cases)
  moreover have "timers (step (ContentChange content) p) = [(nextHandle p, now p + 900)]"
    if "mounted p" and "content \<noteq> []"
    using that inv by (simp add: handleContentChange_text)
  ultimately show ?thesis by blast
qed

theorem one_timer_witness:
  "length (timers (run [ContentChange [0x0061], Elapse 100] (mount 1))) = 1
   \<and> mounted (run [ContentChange [0x0061], Elapse 100] (mount 1))
   \<and> timers (run [ContentChange [0x0061], Elapse 100] (mount 1)) = [(1, 900)]
   \<and> timers (step (ContentChange [0x0062]) (run [ContentChange [0x0061], Elapse 100] (mount 1)))
       = [(2, 1000)]"
  using one_timer [of 1 "run [ContentChange [0x0061], Elapse 100] (mount 1)"
      "[ContentChange [0x0061], Elapse 100]" "[0x0062]"]
  by (simp add: eval_defs)

text \<open>
  Claim C2. On a mounted page in any reachable state, a content change with text sets
  the status to Editing at once and leaves exactly one timer, its own, due 900 ms
  later, with its handle in the ref. Over every following history without a content
  change with text that takes less than 900 ms the status is Editing, and once 900 ms
  or more have passed the run of that timer sets the status to Saved. For changes of
  length 1 at the times 0, 100 and 200: the only timer is the third, due at 1100; the
  status is Editing up to time 1099; the run of the third timer at time 1100 gives
  Saved, and the first two timers do not run.
\<close>

theorem debounce:
  assumes "0 < h0" and "p = run pre (mount h0)" and "mounted p" and "content \<noteq> []"
    and "q = step (ContentChange content) p"
    and "ex = run [ContentChange [0x0061], Elapse 100, ContentChange [0x0061], Elapse 100,
                   ContentChange [0x0061]] (mount 1)"
  shows "saveStatus q = Editing
     \<and> timers q = [(nextHandle p, now p + 900)]
     \<and> saveTimerRef q = Some (nextHandle p)
     \<and> (quiet es \<and> elapsed es < 900 \<longrightarrow>
          saveStatus (run es q) = Editing \<and> now (run es q) = now p + elapsed es)
     \<and> (900 \<le> ms \<longrightarrow> saveStatus (run [Elapse ms, Fire (nextHandle p)] q) = Saved)
     \<and> now ex = 200 \<and> timers ex = [(3, 1100)]
     \<and> (quiet es \<and> elapsed es < 900 \<longrightarrow>
          saveStatus (run es ex) = Editing \<and> now (run es ex) = 200 + elapsed es)
     \<and> saveStatus (run [Elapse 900, Fire 3] ex) = Saved
     \<and> now (run [Elapse 900, Fire 3] ex) = 1100
     \<and> saveStatus (run [Elapse 900, Fire 1, Fire 2] ex) = Editing"
proof -
  from assms have inv: "timer_inv p" by (simp add: timer_inv_reachable)
  have q: "q = handleContentChange content p"
    using assms by simp
  have q1: "saveStatus q = Editing" and q2: "timers q = [(nextHandle p, now p + 900)]"
    and q3: "saveTimerRef q = Some (nextHandle p)" and q4: "now q = now p"
    using inv \<open>content \<noteq> []\<close> by (simp_all add: q handleContentChange_text)
  have hold: "saveStatus (run es q) = Editing \<and> now (run es q) = now p + elapsed es"
    if "quiet es" and "elapsed es < 900"
  proof -
    have "\<forall>t \<in> set (timers q). now q + elapsed es < snd t"
      using that q2 q4 by simp
    with \<open>quiet es\<close> have "saveStatus (run es q) = saveStatus q"
      by (rule quiet_keeps_status)
    then show ?thesis using q1 q4 by (simp add: now_run)
  qed
  have late: "saveStatus (run [Elapse ms, Fire (nextHandle p)] q) = Saved" if "900 \<le> ms"
    using fire_due [OF q2, of ms] that q4 by simp
  have e1: "now ex = 200" and e2: "timers ex = [(3, 1100)]" and e3: "saveStatus ex = Editing"
    by (simp_all add: assms(6) eval_defs)
  have ehold: "saveStatus (run es ex) = Editing \<and> now (run es ex) = 200 + elapsed es"
    if "quiet es" and "elapsed es < 900"
  proof -
    have "\<forall>t \<in> set (timers ex). now ex + elapsed es < snd t"
      using that e1 e2 by simp
    with \<open>quiet es\<close> have "saveStatus (run es ex) = saveStatus ex"
      by (rule quiet_keeps_status)
    then show ?thesis using e1 e3 by (simp add: now_run)
  qed
  have e4: "saveStatus (run [Elapse 900, Fire 3] ex) = Saved"
    using fire_due [OF e2, of 900] e1 by simp
  have e5: "now (run [Elapse 900, Fire 3] ex) = 1100"
    unfolding now_run using e1 by simp
  have e6: "saveStatus (run [Elapse 900, Fire 1, Fire 2] ex) = Editing"
    using e1 e2 e3 by (simp add: fire_def)
  show ?thesis
    using q1 q2 q3 hold late e1 e2 ehold e4 e5 e6 by blast
qed

theorem debounce_witness:
  "mounted (run [ContentChange [0x0061], Elapse 100] (mount 1))
   \<and> quiet [Elapse 899, Fire 2, Fire 1, ContentChange [], Unmount]
   \<and> elapsed [Elapse 899, Fire 2, Fire 1, ContentChange [], Unmount] = 899
   \<and> saveStatus (run [Elapse 899, Fire 2, Fire 1, ContentChange [], Unmount]
        (step (ContentChange [0x0062]) (run [ContentChange [0x0061], Elapse 100] (mount 1))))
       = Editing
   \<and> now (run [Elapse 899, Fire 2, Fire 1, ContentChange [], Unmount]
        (step (ContentChange [0x0062]) (run [ContentChange [0x0061], Elapse 100] (mount 1))))
       = 999
   \<and> saveStatus (run [Elapse 900, Fire 2]
        (step (ContentChange [0x0062]) (run [ContentChange [0x0061], Elapse 100] (mount 1))))
       = Saved"
proof -
  have m: "mounted (run [ContentChange [0x0061], Elapse 100] (mount 1))"
    and n: "now (run [ContentChange [0x0061], Elapse 100] (mount 1)) = 100"
    and h: "nextHandle (run [ContentChange [0x0061], Elapse 100] (mount 1)) = 2"
    by (simp_all add: eval_defs)
  have c: "[0x0062 :: utf16] \<noteq> []" by simp
  have qu: "quiet [Elapse 899, Fire 2, Fire 1, ContentChange [], Unmount]"
    and el: "elapsed [Elapse 899, Fire 2, Fire 1, ContentChange [], Unmount] = 899"
    by simp_all
  show ?thesis
    using m n h qu el
      debounce [OF _ refl m c refl refl,
        where es = "[Elapse 899, Fire 2, Fire 1, ContentChange [], Unmount]" and ms = 900]
    by simp
qed

text \<open>
  Claim C4. A content change with the empty text (the only text of length 0) changes
  nothing but the two stored metrics: the status, the ref, the set timers and the next
  handle are as before, and a timer run after it has the effect it would have had
  without it. So an empty change during Editing leaves the status Editing and the
  timer set, and that timer still sets the status to Saved.
\<close>

theorem empty_content_frame:
  "handleContentChange [] p = p\<lparr>contentLength := 0, paragraphCount := 0\<rparr>
   \<and> saveStatus (handleContentChange [] p) = saveStatus p
   \<and> saveTimerRef (handleContentChange [] p) = saveTimerRef p
   \<and> timers (handleContentChange [] p) = timers p
   \<and> nextHandle (handleContentChange [] p) = nextHandle p
   \<and> fire h (handleContentChange [] p) = (fire h p)\<lparr>contentLength := 0, paragraphCount := 0\<rparr>
   \<and> saveStatus (run [ContentChange [0x0061], Elapse 500, ContentChange []] (mount 1)) = Editing
   \<and> timers (run [ContentChange [0x0061], Elapse 500, ContentChange []] (mount 1)) = [(1, 900)]
   \<and> saveStatus (run [ContentChange [0x0061], Elapse 500, ContentChange [], Elapse 400, Fire 1]
        (mount 1)) = Saved"
  by (simp add: handleContentChange_empty)
    (simp add: eval_defs split: option.splits)

text \<open>
  Claim C8. Unmounting a page in any reachable state leaves no timer set and does not
  change the status, and over every later history the status stays as it was at the
  unmount and no timer is set.
\<close>

theorem teardown:
  assumes "0 < h0" and "p = run pre (mount h0)"
  shows "timers (step Unmount p) = []
     \<and> \<not> mounted (step Unmount p)
     \<and> saveStatus (step Unmount p) = saveStatus p
     \<and> saveStatus (run es (step Unmount p)) = saveStatus p
     \<and> timers (run es (step Unmount p)) = []"
proof -
  from assms have inv: "timer_inv p" by (simp add: timer_inv_reachable)
  then have u: "timers (step Unmount p) = [] \<and> \<not> mounted (step Unmount p)
      \<and> saveStatus (step Unmount p) = saveStatus p"
    by (auto simp add: timer_inv_cases cleanup_def clearSaveTimer_def clearTimeout_def
        split: option.splits)
  with unmounted_stays [of "step Unmount p" es] show ?thesis by simp
qed

theorem teardown_witness:
  "timers (run [ContentChange [0x0061], Elapse 100] (mount 1)) = [(1, 900)]
   \<and> timers (step Unmount (run [ContentChange [0x0061], Elapse 100] (mount 1))) = []
   \<and> saveStatus (run [Elapse 900, Fire 1, ContentChange [0x0062]]
        (step Unmount (run [ContentChange [0x0061], Elapse 100] (mount 1)))) = Editing"
  using teardown [of 1 "run [ContentChange [0x0061], Elapse 100] (mount 1)"
      "[ContentChange [0x0061], Elapse 100]" "[Elapse 900, Fire 1, ContentChange [0x0062]]"]
  by (simp add: eval_defs)

end
